theory Spec2Isabelle
  imports Complex_Main
begin

section \<open>JavaScript strings\<close>

text \<open>
  Strings are \<^typ>\<open>string\<close>, read as the UTF-8 bytes of the JavaScript string. The
  source applies \<^verbatim>\<open>toLowerCase\<close> only to test for the suffix \<^verbatim>\<open>.pdf\<close>; no
  code point outside ASCII lower-cases to one of the characters of that suffix, so lowering
  the ASCII capitals decides the same test.
\<close>

definition lower_char :: "char \<Rightarrow> char" where
  "lower_char c =
     (case map_of (zip ''ABCDEFGHIJKLMNOPQRSTUVWXYZ'' ''abcdefghijklmnopqrstuvwxyz'') c of
        None \<Rightarrow> c
      | Some l \<Rightarrow> l)"

definition toLowerCase :: "string \<Rightarrow> string" where
  "toLowerCase s = map lower_char s"

fun startsWith :: "string \<Rightarrow> string \<Rightarrow> bool" where
  "startsWith s [] = True"
| "startsWith [] (p # ps) = False"
| "startsWith (c # cs) (p # ps) = (c = p \<and> startsWith cs ps)"

definition endsWith :: "string \<Rightarrow> string \<Rightarrow> bool" where
  "endsWith s suf = startsWith (rev s) (rev suf)"

text \<open>\<^verbatim>\<open>s.includes(sub)\<close>: \<open>sub\<close> occurs in \<open>s\<close> as a contiguous run.\<close>

fun includes_str :: "string \<Rightarrow> string \<Rightarrow> bool" where
  "includes_str [] sub = (sub = [])"
| "includes_str (c # cs) sub = (startsWith (c # cs) sub \<or> includes_str cs sub)"

text \<open>
  \<^verbatim>\<open>s.replace(pat, rep)\<close> with a string pattern: the first occurrence of \<open>pat\<close> is
  replaced and the rest of \<open>s\<close> is kept; without an occurrence \<open>s\<close> is returned. The
  source only passes the replacement \<^verbatim>\<open>''\<close>, which has no \<^verbatim>\<open>$\<close> pattern.
\<close>

fun replace :: "string \<Rightarrow> string \<Rightarrow> string \<Rightarrow> string" where
  "replace [] pat rep = (if pat = [] then rep else [])"
| "replace (c # cs) pat rep =
     (if startsWith (c # cs) pat then rep @ drop (length pat) (c # cs)
      else c # replace cs pat rep)"

section \<open>Numbers, requests and responses\<close>

text \<open>
  The progress value is the only number the source divides. A JavaScript division by zero
  does not fail: \<^verbatim>\<open>0/0\<close> is \<^verbatim>\<open>NaN\<close> and \<^verbatim>\<open>n/0\<close> is \<^verbatim>\<open>Infinity\<close>
  for a positive \<open>n\<close>. Finite quotients are kept exact; the rounding of doubles is left out.
\<close>

datatype jsnum = NaN | Infinity | Finite rat

definition js_div :: "nat \<Rightarrow> nat \<Rightarrow> jsnum" where
  "js_div a b =
     (if b = 0 then (if a = 0 then NaN else Infinity) else Finite (of_nat a / of_nat b))"

text \<open>\<^verbatim>\<open>x * 100\<close>.\<close>

fun times100 :: "jsnum \<Rightarrow> jsnum" where
  "times100 NaN = NaN"
| "times100 Infinity = Infinity"
| "times100 (Finite q) = Finite (q * 100)"

record File =
  name :: string
  type :: string
  size_file :: nat

datatype format = JSON | CSV | XLSX

fun format_str :: "format \<Rightarrow> string" where
  "format_str JSON = ''json''"
| "format_str CSV = ''csv''"
| "format_str XLSX = ''xlsx''"

datatype body = NoBody | FormData File | AnalyzeBody string int

text \<open>A call of \<^verbatim>\<open>fetch\<close>: method, URL, request body and the credentials option.\<close>

record request =
  http_method :: string
  url :: string
  payload :: body
  credentials :: "string option"

text \<open>
  What the awaited \<^verbatim>\<open>fetch\<close> gives back: it rejects (\<open>NetworkError\<close>), or it resolves
  to a response with its \<^verbatim>\<open>ok\<close> and \<^verbatim>\<open>redirected\<close> flags and a body.
  \<open>blob\<close> is what \<^verbatim>\<open>response.blob()\<close> resolves to and \<open>parsed\<close> what
  \<^verbatim>\<open>response.json()\<close> resolves to; \<open>None\<close> is a body on which the call rejects.
\<close>

record 'b response =
  ok :: bool
  redirected :: bool
  blob :: "string option"
  parsed :: "'b option"

datatype 'b fetched = NetworkError | Resolved "'b response"

section \<open>Page records\<close>

text \<open>
  The interface \<^verbatim>\<open>PageData\<close> declares a page number, the text, and two fields that are
  a value or \<^verbatim>\<open>null\<close>. The review component stores in them whatever the analyze response
  has under these names, and a response that lacks one of them leaves \<^verbatim>\<open>undefined\<close>
  there; the tests \<^verbatim>\<open>=== null\<close> and \<^verbatim>\<open>!== null\<close> of the source tell the two apart.
\<close>

datatype 'a nullable = Undefined | Null | Value 'a

record PageData =
  page_number :: int
  analyze_contents :: string
  optimized_details :: "string nullable"
  is_important :: "bool nullable"

text \<open>
  Modelled from the spec: the body of a successful analyze response as the review component
  reads it, \<^verbatim>\<open>{ optimized_details, is_important }\<close>; the source types it \<^verbatim>\<open>any\<close>.
  A field that the body lacks reads as \<open>Undefined\<close>.
\<close>

record AnalysisResult =
  result_optimized_details :: "string nullable"
  result_is_important :: "bool nullable"

section \<open>The review component (ResultsReview)\<close>

record ReviewState =
  pages :: "PageData list"
  analyzing :: "int list"
  editingPage :: "int option"
  editContent :: string
  analysisProgress :: jsnum
  allAnalyzed :: bool

text \<open>The effect that React runs after the first render and after every change of \<open>pages\<close>.\<close>

definition pages_effect :: "ReviewState \<Rightarrow> ReviewState" where
  "pages_effect s =
     (let analyzedCount = length (filter (\<lambda>p. optimized_details p \<noteq> Null) (pages s))
      in s\<lparr>analysisProgress := times100 (js_div analyzedCount (length (pages s))),
            allAnalyzed := (analyzedCount = length (pages s))\<rparr>)"

definition setPages :: "(PageData list \<Rightarrow> PageData list) \<Rightarrow> ReviewState \<Rightarrow> ReviewState" where
  "setPages f s = pages_effect (s\<lparr>pages := f (pages s)\<rparr>)"

text \<open>The state after the component is mounted with its \<open>data\<close> prop.\<close>

definition ResultsReview :: "PageData list \<Rightarrow> ReviewState" where
  "ResultsReview initialData =
     pages_effect \<lparr>pages = initialData, analyzing = [], editingPage = None,
       editContent = [], analysisProgress = Finite 0, allAnalyzed = False\<rparr>"

text \<open>The three download buttons carry \<^verbatim>\<open>disabled={!allAnalyzed}\<close>.\<close>

definition download_disabled :: "ReviewState \<Rightarrow> bool" where
  "download_disabled s = (\<not> allAnalyzed s)"

definition analyzeAll_disabled :: "ReviewState \<Rightarrow> bool" where
  "analyzeAll_disabled s = (length (analyzing s) > 0 \<or> allAnalyzed s)"

text \<open>
  \<^verbatim>\<open>analyzeContent\<close> is asynchronous. Its part before the \<^verbatim>\<open>await\<close> marks the page
  and issues the request; its continuation runs on the state as it is when the request
  settles (every update of the source is a functional update).
\<close>

definition analyze_request :: "int \<Rightarrow> string \<Rightarrow> request" where
  "analyze_request pageNumber content =
     \<lparr>http_method = ''POST'', url = ''/analyze'', payload = AnalyzeBody content pageNumber,
      credentials = None\<rparr>"

definition analyzeContent_begin :: "int \<Rightarrow> string \<Rightarrow> ReviewState \<Rightarrow> ReviewState \<times> request" where
  "analyzeContent_begin pageNumber content s =
     (s\<lparr>analyzing := analyzing s @ [pageNumber]\<rparr>, analyze_request pageNumber content)"

definition merge_result :: "int \<Rightarrow> AnalysisResult \<Rightarrow> PageData \<Rightarrow> PageData" where
  "merge_result pageNumber analysisResult page =
     (if page_number page = pageNumber
      then page\<lparr>optimized_details := result_optimized_details analysisResult,
                is_important := result_is_important analysisResult\<rparr>
      else page)"

definition analyzeContent_settle :: "int \<Rightarrow> AnalysisResult fetched \<Rightarrow> ReviewState \<Rightarrow> ReviewState" where
  "analyzeContent_settle pageNumber r s =
     (let s1 = (case r of
                  NetworkError \<Rightarrow> s
                | Resolved resp \<Rightarrow>
                    if ok resp
                    then (case parsed resp of
                            None \<Rightarrow> s
                          | Some analysisResult \<Rightarrow> setPages (map (merge_result pageNumber analysisResult)) s)
                    else s)
      in s1\<lparr>analyzing := filter (\<lambda>p. p \<noteq> pageNumber) (analyzing s1)\<rparr>)"

text \<open>The whole call, when nothing else happens between the request and its settling.\<close>

definition analyzeContent :: "int \<Rightarrow> string \<Rightarrow> AnalysisResult fetched \<Rightarrow> ReviewState \<Rightarrow> ReviewState" where
  "analyzeContent pageNumber content r s =
     analyzeContent_settle pageNumber r (fst (analyzeContent_begin pageNumber content s))"




definition startEditing :: "PageData \<Rightarrow> ReviewState \<Rightarrow> ReviewState" where
  "startEditing page s = s\<lparr>editingPage := Some (page_number page), editContent := analyze_contents page\<rparr>"

definition commit_edit :: "int \<Rightarrow> string \<Rightarrow> PageData \<Rightarrow> PageData" where
  "commit_edit pageNumber content page =
     (if page_number page = pageNumber
      then page\<lparr>analyze_contents := content, optimized_details := Null, is_important := Null\<rparr>
      else page)"

text \<open>
  \<^verbatim>\<open>saveEdit\<close> up to its \<^verbatim>\<open>await\<close>: the state in which the re-analysis request is
  in flight, and that request. The call then continues as \<open>analyzeContent_settle\<close> for
  the edited page.
\<close>

definition saveEdit_begin :: "ReviewState \<Rightarrow> ReviewState \<times> request option" where
  "saveEdit_begin s =
     (case editingPage s of
        None \<Rightarrow> (s, None)
      | Some pageNumber \<Rightarrow>
          (let s1 = setPages (map (commit_edit pageNumber (editContent s))) s;
               s2 = s1\<lparr>editingPage := None\<rparr>;
               s3 = s2\<lparr>editContent := []\<rparr>;
               (s4, req) = analyzeContent_begin pageNumber (editContent s) s3
           in (s4, Some req)))"

definition saveEdit :: "AnalysisResult fetched \<Rightarrow> ReviewState \<Rightarrow> ReviewState" where
  "saveEdit r s =
     (case editingPage s of
        None \<Rightarrow> s
      | Some pageNumber \<Rightarrow> analyzeContent_settle pageNumber r (fst (saveEdit_begin s)))"

definition cancelEdit :: "ReviewState \<Rightarrow> ReviewState" where
  "cancelEdit s = s\<lparr>editingPage := None, editContent := []\<rparr>"

text \<open>The file name the browser is given for a download.\<close>

definition download_name :: "string \<Rightarrow> format \<Rightarrow> string" where
  "download_name filename fmt = replace filename ''.pdf'' [] @ ''.'' @ format_str fmt"

definition ResultsReview_download_request :: "format \<Rightarrow> request" where
  "ResultsReview_download_request fmt =
     \<lparr>http_method = ''GET'', url = ''/download/'' @ format_str fmt, payload = NoBody,
      credentials = Some ''same-origin''\<rparr>"

text \<open>
  \<^verbatim>\<open>downloadResults\<close> of the review component changes no state. After the request has
  settled it offers a file (its name and content) or, on any failure, nothing.
\<close>

definition ResultsReview_downloadResults :: "string \<Rightarrow> format \<Rightarrow> 'b fetched \<Rightarrow> (string \<times> string) option" where
  "ResultsReview_downloadResults filename fmt r =
     (case r of
        NetworkError \<Rightarrow> None
      | Resolved resp \<Rightarrow>
          if ok resp
          then (case blob resp of None \<Rightarrow> None | Some b \<Rightarrow> Some (download_name filename fmt, b))
          else None)"

text \<open>
  What a page card shows. The badge is rendered when \<^verbatim>\<open>is_important !== null\<close> and reads
  Confidential when the value is truthy; the summary is rendered when
  \<^verbatim>\<open>optimized_details\<close> is truthy.
\<close>

record PageCard =
  card_page :: int
  confidential_badge :: "bool option"
  analyzing_badge :: bool
  in_edit :: bool
  shown_text :: string
  shown_summary :: "string option"

definition render_card :: "ReviewState \<Rightarrow> PageData \<Rightarrow> PageCard" where
  "render_card s page =
     \<lparr>card_page = page_number page,
      confidential_badge = (case is_important page of
                              Null \<Rightarrow> None
                            | Undefined \<Rightarrow> Some False
                            | Value b \<Rightarrow> Some b),
      analyzing_badge = List.member (analyzing s) (page_number page),
      in_edit = (editingPage s = Some (page_number page)),
      shown_text = (if editingPage s = Some (page_number page) then editContent s
                    else analyze_contents page),
      shown_summary = (case optimized_details page of
                         Value d \<Rightarrow> if d = [] then None else Some d
                       | _ \<Rightarrow> None)\<rparr>"

definition ResultsReview_cards :: "ReviewState \<Rightarrow> PageCard list" where
  "ResultsReview_cards s = map (render_card s) (pages s)"

section \<open>The upload component (FileUpload)\<close>

record FileUploadState =
  dragActive :: bool
  uploading :: bool
  uploadProgress :: nat
  upload_error :: "string option"

definition FileUpload :: FileUploadState where
  "FileUpload = \<lparr>dragActive = False, uploading = False, uploadProgress = 0, upload_error = None\<rparr>"

definition max_size :: nat where
  "max_size = 50 * 1024 * 1024"

definition FileUpload_request :: "File \<Rightarrow> request" where
  "FileUpload_request f = \<lparr>http_method = ''POST'', url = ''/'', payload = FormData f, credentials = None\<rparr>"

text \<open>
  \<^verbatim>\<open>handleFile\<close> up to its \<^verbatim>\<open>await\<close>: the two checks, then the request. The result
  is the new state of the component and the request it issued, if any.
\<close>

definition handleFile_begin :: "File \<Rightarrow> FileUploadState \<Rightarrow> FileUploadState \<times> request option" where
  "handleFile_begin f s =
     (if \<not> includes_str (type f) ''pdf''
      then (s\<lparr>upload_error := Some ''Please upload a PDF file only.''\<rparr>, None)
      else if size_file f > max_size
      then (s\<lparr>upload_error := Some ''File size must be less than 50MB.''\<rparr>, None)
      else (s\<lparr>upload_error := None, uploading := True, uploadProgress := 0\<rparr>,
            Some (FileUpload_request f)))"

text \<open>
  The drag events set the highlight of the drop zone. A drop clears it and hands the first
  dropped file to \<^verbatim>\<open>handleFile\<close>; the file picker hands its file over directly.
\<close>

definition handleDrag :: "string \<Rightarrow> FileUploadState \<Rightarrow> FileUploadState" where
  "handleDrag event_type s =
     (if event_type = ''dragenter'' \<or> event_type = ''dragover'' then s\<lparr>dragActive := True\<rparr>
      else if event_type = ''dragleave'' then s\<lparr>dragActive := False\<rparr>
      else s)"

definition handleDrop_begin :: "File \<Rightarrow> FileUploadState \<Rightarrow> FileUploadState \<times> request option" where
  "handleDrop_begin f s = handleFile_begin f (s\<lparr>dragActive := False\<rparr>)"

text \<open>One tick of the interval that simulates progress while the request is in flight.\<close>

definition progress_tick :: "FileUploadState \<Rightarrow> FileUploadState" where
  "progress_tick s = s\<lparr>uploadProgress := (if uploadProgress s \<ge> 90 then 90 else uploadProgress s + 10)\<rparr>"

text \<open>
  The continuation of \<^verbatim>\<open>handleFile\<close>. On a redirected response it starts a timer of
  500 ms that calls \<^verbatim>\<open>onFileUploaded(file.name)\<close>: the second component of the result is
  the file name that timer carries.
\<close>

definition handleFile_settle :: "File \<Rightarrow> 'b fetched \<Rightarrow> FileUploadState \<Rightarrow> FileUploadState \<times> string option" where
  "handleFile_settle f r s =
     (let failed = (s\<lparr>upload_error := Some ''Upload failed. Please try again.'',
                      uploading := False, uploadProgress := 0\<rparr>, None)
      in case r of
           NetworkError \<Rightarrow> failed
         | Resolved resp \<Rightarrow>
             if redirected resp then (s\<lparr>uploadProgress := 100\<rparr>, Some (name f)) else failed)"

section \<open>The processing component (ProcessingStatus)\<close>

definition simulateDataExtraction :: "PageData list" where
  "simulateDataExtraction =
     [\<lparr>page_number = 1, analyze_contents = ''Sample extracted Thai text from page 1...'',
       optimized_details = Null, is_important = Null\<rparr>,
      \<lparr>page_number = 2, analyze_contents = ''Sample extracted Thai text from page 2...'',
       optimized_details = Null, is_important = Null\<rparr>]"

text \<open>
  \<^verbatim>\<open>startProcessing\<close>, reduced to its call of \<^verbatim>\<open>onComplete\<close>: the data it passes
  on, or \<open>None\<close> when it never calls it. The step indicators and the progress bar of
  the component are left out.
\<close>

definition startProcessing :: "'a fetched \<Rightarrow> 'b fetched \<Rightarrow> PageData list option" where
  "startProcessing extractResponse reviewResponse =
     (case extractResponse of
        NetworkError \<Rightarrow> None
      | Resolved e \<Rightarrow>
          if redirected e
          then (case reviewResponse of
                  NetworkError \<Rightarrow> None
                | Resolved v \<Rightarrow> if ok v then Some simulateDataExtraction else None)
          else None)"

section \<open>The controller of the component variant (Index)\<close>

datatype AppState = AppUpload | AppProcessing | AppReview

record Controller =
  currentState :: AppState
  filename :: string
  extractedData :: "PageData list"

definition Index :: Controller where
  "Index = \<lparr>currentState = AppUpload, filename = [], extractedData = []\<rparr>"

definition handleFileUploaded :: "string \<Rightarrow> Controller \<Rightarrow> Controller" where
  "handleFileUploaded uploadedFilename c = c\<lparr>filename := uploadedFilename, currentState := AppProcessing\<rparr>"

definition handleProcessingStart :: "Controller \<Rightarrow> Controller" where
  "handleProcessingStart c = c"

definition handleProcessingComplete :: "PageData list \<Rightarrow> Controller \<Rightarrow> Controller" where
  "handleProcessingComplete data c = c\<lparr>extractedData := data, currentState := AppReview\<rparr>"

text \<open>The file name on screen: the processing and the review view show the \<open>filename\<close> prop.\<close>

definition Index_shown_filename :: "Controller \<Rightarrow> string option" where
  "Index_shown_filename c = (if currentState c = AppUpload then None else Some (filename c))"

text \<open>The page cards on screen: those of the review component, mounted in the review state.\<close>

definition Index_cards :: "Controller \<Rightarrow> PageCard list" where
  "Index_cards c =
     (if currentState c = AppReview then ResultsReview_cards (ResultsReview (extractedData c)) else [])"

section \<open>The single-file variant of the page (Index with the JSON API)\<close>

text \<open>
  This variant stores the page objects as the backend sends them
  (\<^verbatim>\<open>setPagesData(data.pages_data)\<close>) and spreads a whole response body over a page
  (\<^verbatim>\<open>{ ...page, ...data }\<close>), so a page is an open object here: a list of its
  properties, each with a JSON value. A property that is not in the list reads as
  \<^verbatim>\<open>undefined\<close>. The source reads properties by name only, never in their order of
  enumeration, so the order of the list (insertion order, also for the integer-like names
  that JavaScript enumerates first) is not observed. Numbers are the integers, which is
  what page numbers are.
\<close>

datatype jsval = JNull | JBool bool | JNum int | JStr string

type_synonym jsobj = "(string \<times> jsval) list"

definition get_prop :: "jsobj \<Rightarrow> string \<Rightarrow> jsval option" where
  "get_prop page k = map_of page k"

fun put :: "string \<Rightarrow> jsval \<Rightarrow> jsobj \<Rightarrow> jsobj" where
  "put k v [] = [(k, v)]"
| "put k v ((k', v') # rest) = (if k' = k then (k, v) # rest else (k', v') # put k v rest)"

text \<open>\<^verbatim>\<open>{ ...page, ...data }\<close>: every property of \<open>data\<close> is written over \<open>page\<close>.\<close>

definition spread :: "jsobj \<Rightarrow> jsobj \<Rightarrow> jsobj" where
  "spread page data = fold (\<lambda>(k, v) acc. put k v acc) data page"

text \<open>
  \<^verbatim>\<open>e || fallback\<close> for an optional message: an absent or empty message is falsy.
\<close>

definition or_else :: "string option \<Rightarrow> string \<Rightarrow> string" where
  "or_else e fallback = (case e of None \<Rightarrow> fallback | Some m \<Rightarrow> if m = [] then fallback else m)"

text \<open>
  The \<^verbatim>\<open>error\<close> property of an open response body. The error state is a string; a value
  of another JSON type is outside the backend's contract and reads as absent here.
\<close>

definition error_prop :: "jsobj \<Rightarrow> string option" where
  "error_prop data = (case get_prop data ''error'' of Some (JStr m) \<Rightarrow> Some m | _ \<Rightarrow> None)"

text \<open>
  Modelled from the spec: the bodies of the upload and the extract response,
  \<^verbatim>\<open>{ success, filename, error? }\<close> and \<^verbatim>\<open>{ success, pages_data, total_pages, error? }\<close>;
  the source types them \<^verbatim>\<open>any\<close>.
\<close>

record UploadBody =
  upload_success :: bool
  upload_filename :: string
  upload_failure :: "string option"

record ExtractBody =
  extract_success :: bool
  pages_data :: "jsobj list"
  total_pages :: int
  extract_failure :: "string option"

text \<open>Modelled from the spec: the body of a failed download, \<^verbatim>\<open>{ error? }\<close>.\<close>

record ErrorBody =
  failure :: "string option"

datatype Step = StepUpload | StepExtract | StepReview

text \<open>The state of the page. Toasts and console output are left out.\<close>

record IndexState =
  file' :: "File option"
  isUploading :: bool
  isExtracting :: bool
  isAnalyzing :: bool
  uploadedFilename :: string
  pagesData :: "jsobj list"
  error :: string
  currentStep :: Step

definition IndexA :: IndexState where
  "IndexA = \<lparr>file' = None, isUploading = False, isExtracting = False, isAnalyzing = False,
     uploadedFilename = [], pagesData = [], error = [], currentStep = StepUpload\<rparr>"

text \<open>
  \<^verbatim>\<open>handleFileSelect\<close> issues no request on any path: the result is the new state and
  the (empty) list of requests issued.
\<close>

definition handleFileSelect :: "File \<Rightarrow> IndexState \<Rightarrow> IndexState \<times> request list" where
  "handleFileSelect selectedFile s =
     (if \<not> endsWith (toLowerCase (name selectedFile)) ''.pdf''
      then (s\<lparr>error := ''Please select a PDF file only''\<rparr>, [])
      else if size_file selectedFile > 50 * 1024 * 1024
      then (s\<lparr>error := ''File size must be less than 50MB''\<rparr>, [])
      else (s\<lparr>file' := Some selectedFile, error := []\<rparr>, []))"

definition upload_request :: "File \<Rightarrow> request" where
  "upload_request f =
     \<lparr>http_method = ''POST'', url = ''/api/upload'', payload = FormData f, credentials = Some ''include''\<rparr>"

definition uploadFile_begin :: "IndexState \<Rightarrow> IndexState \<times> request option" where
  "uploadFile_begin s =
     (case file' s of
        None \<Rightarrow> (s, None)
      | Some f \<Rightarrow> (s\<lparr>isUploading := True, error := []\<rparr>, Some (upload_request f)))"

definition uploadFile_settle :: "UploadBody fetched \<Rightarrow> IndexState \<Rightarrow> IndexState" where
  "uploadFile_settle r s =
     (let network = s\<lparr>error := ''Network error. Please check if the backend is running on port 5000.''\<rparr>;
          s1 = (case r of
                  NetworkError \<Rightarrow> network
                | Resolved resp \<Rightarrow>
                    (case parsed resp of
                       None \<Rightarrow> network
                     | Some data \<Rightarrow>
                         if ok resp \<and> upload_success data
                         then s\<lparr>uploadedFilename := upload_filename data, currentStep := StepExtract\<rparr>
                         else s\<lparr>error := or_else (upload_failure data) ''Upload failed''\<rparr>))
      in s1\<lparr>isUploading := False\<rparr>)"

definition extract_request :: request where
  "extract_request =
     \<lparr>http_method = ''GET'', url = ''/api/extract'', payload = NoBody, credentials = Some ''include''\<rparr>"

definition extractText_begin :: "IndexState \<Rightarrow> IndexState \<times> request" where
  "extractText_begin s = (s\<lparr>isExtracting := True, error := []\<rparr>, extract_request)"

definition extractText_settle :: "ExtractBody fetched \<Rightarrow> IndexState \<Rightarrow> IndexState" where
  "extractText_settle r s =
     (let network = s\<lparr>error := ''Network error during extraction.''\<rparr>;
          s1 = (case r of
                  NetworkError \<Rightarrow> network
                | Resolved resp \<Rightarrow>
                    (case parsed resp of
                       None \<Rightarrow> network
                     | Some data \<Rightarrow>
                         if ok resp \<and> extract_success data
                         then s\<lparr>pagesData := pages_data data, currentStep := StepReview\<rparr>
                         else s\<lparr>error := or_else (extract_failure data) ''Extraction failed''\<rparr>))
      in s1\<lparr>isExtracting := False\<rparr>)"

definition analyzeText_request :: "int \<Rightarrow> string \<Rightarrow> request" where
  "analyzeText_request pageNumber text =
     \<lparr>http_method = ''POST'', url = ''/api/analyze'', payload = AnalyzeBody text pageNumber,
      credentials = Some ''include''\<rparr>"

definition analyzeText_begin :: "int \<Rightarrow> string \<Rightarrow> IndexState \<Rightarrow> IndexState \<times> request" where
  "analyzeText_begin pageNumber text s =
     (s\<lparr>isAnalyzing := True, error := []\<rparr>, analyzeText_request pageNumber text)"

definition spread_matching :: "int \<Rightarrow> jsobj \<Rightarrow> jsobj \<Rightarrow> jsobj" where
  "spread_matching pageNumber data page =
     (if get_prop page ''page_number'' = Some (JNum pageNumber) then spread page data else page)"

definition analyzeText_settle :: "int \<Rightarrow> jsobj fetched \<Rightarrow> IndexState \<Rightarrow> IndexState" where
  "analyzeText_settle pageNumber r s =
     (let network = s\<lparr>error := ''Network error during analysis.''\<rparr>;
          s1 = (case r of
                  NetworkError \<Rightarrow> network
                | Resolved resp \<Rightarrow>
                    (case parsed resp of
                       None \<Rightarrow> network
                     | Some data \<Rightarrow>
                         if ok resp
                         then s\<lparr>pagesData := map (spread_matching pageNumber data) (pagesData s)\<rparr>
                         else s\<lparr>error := or_else (error_prop data) ''Analysis failed''\<rparr>))
      in s1\<lparr>isAnalyzing := False\<rparr>)"

definition download_request :: "format \<Rightarrow> request" where
  "download_request fmt =
     \<lparr>http_method = ''GET'', url = ''/api/download/'' @ format_str fmt, payload = NoBody,
      credentials = Some ''include''\<rparr>"

text \<open>
  \<^verbatim>\<open>downloadResults\<close> after its request has settled; \<open>uploadedFilename\<close> is the value
  the handler closed over when the button was pressed. The result is the new state and the
  file offered to the user, if any.
\<close>

definition downloadResults_settle ::
  "string \<Rightarrow> format \<Rightarrow> ErrorBody fetched \<Rightarrow> IndexState \<Rightarrow> IndexState \<times> (string \<times> string) option" where
  "downloadResults_settle uploadedFilename' fmt r s =
     (let network = (s\<lparr>error := ''Network error during download.''\<rparr>, None)
      in case r of
           NetworkError \<Rightarrow> network
         | Resolved resp \<Rightarrow>
             if ok resp
             then (case blob resp of
                     None \<Rightarrow> network
                   | Some b \<Rightarrow> (s, Some (download_name uploadedFilename' fmt, b)))
             else (case parsed resp of
                     None \<Rightarrow> network
                   | Some errorData \<Rightarrow> (s\<lparr>error := or_else (failure errorData) ''Download failed''\<rparr>, None)))"

definition resetProcess :: "IndexState \<Rightarrow> IndexState" where
  "resetProcess s =
     s\<lparr>file' := None, uploadedFilename := [], pagesData := [], error := [], currentStep := StepUpload\<rparr>"


definition shown_filename :: "IndexState \<Rightarrow> string option" where
  "shown_filename s = (if currentStep s = StepExtract then Some (uploadedFilename s) else None)"

text \<open>The cards of the review view, each by the \<^verbatim>\<open>page_number\<close> it is keyed and titled with.\<close>

definition page_numbers :: "jsobj list \<Rightarrow> jsval option list" where
  "page_numbers ps = map (\<lambda>page. get_prop page ''page_number'') ps"

definition cards :: "IndexState \<Rightarrow> jsval option list" where
  "cards s =
     (if currentStep s = StepReview \<and> length (pagesData s) > 0
      then map (\<lambda>page. get_prop page ''page_number'') (pagesData s)
      else [])"

text \<open>Ascending order of the numbers shown: each is a number and none is above a later one.\<close>

fun js_le :: "jsval option \<Rightarrow> jsval option \<Rightarrow> bool" where
  "js_le (Some (JNum a)) (Some (JNum b)) = (a \<le> b)"
| "js_le x y = False"

definition ascending :: "jsval option list \<Rightarrow> bool" where
  "ascending ks = sorted_wrt js_le ks"

section \<open>The pages as transition systems\<close>

subsection \<open>The single-file variant\<close>

text \<open>
  What can happen to the page: a file is dropped or picked, a button is pressed, or a
  request that is in flight settles. \<open>enabled\<close> says when: a control can be used when
  the view that shows it is rendered and it is not disabled. An upload is in flight exactly
  while \<open>isUploading\<close> is set (the flag is set with the request and cleared when it
  settles, and the button is disabled meanwhile), and likewise for the extraction. A
  download changes the state only when it settles, which may be at any later time, so its
  settling is enabled everywhere. No control of the page calls \<^verbatim>\<open>analyzeText\<close>.
\<close>

datatype action =
    SelectFile File
  | ClickUpload
  | UploadSettled "UploadBody fetched"
  | ClickExtract
  | ExtractSettled "ExtractBody fetched"
  | DownloadSettled string format "ErrorBody fetched"
  | ClickStartOver

fun enabled :: "IndexState \<Rightarrow> action \<Rightarrow> bool" where
  "enabled s (SelectFile f) = (currentStep s = StepUpload)"
| "enabled s ClickUpload = (currentStep s = StepUpload \<and> file' s \<noteq> None \<and> \<not> isUploading s)"
| "enabled s (UploadSettled r) = isUploading s"
| "enabled s ClickExtract = (currentStep s = StepExtract \<and> \<not> isExtracting s)"
| "enabled s (ExtractSettled r) = isExtracting s"
| "enabled s (DownloadSettled fname fmt r) = True"
| "enabled s ClickStartOver = (currentStep s = StepReview \<and> length (pagesData s) > 0)"

fun perform :: "action \<Rightarrow> IndexState \<Rightarrow> IndexState" where
  "perform (SelectFile f) s = fst (handleFileSelect f s)"
| "perform ClickUpload s = fst (uploadFile_begin s)"
| "perform (UploadSettled r) s = uploadFile_settle r s"
| "perform ClickExtract s = fst (extractText_begin s)"
| "perform (ExtractSettled r) s = extractText_settle r s"
| "perform (DownloadSettled fname fmt r) s = fst (downloadResults_settle fname fmt r s)"
| "perform ClickStartOver s = resetProcess s"

inductive reachable :: "IndexState \<Rightarrow> bool" where
  initial: "reachable IndexA"
| step: "reachable s \<Longrightarrow> enabled s a \<Longrightarrow> reachable (perform a s)"

text \<open>Running a list of actions from a state; \<open>None\<close> when one of them is not enabled.\<close>

fun run :: "action list \<Rightarrow> IndexState \<Rightarrow> IndexState option" where
  "run [] s = Some s"
| "run (a # rest) s = (if enabled s a then run rest (perform a s) else None)"

text \<open>A step of the stage stays where it is or moves to the next stage.\<close>

definition forward :: "Step \<Rightarrow> Step \<Rightarrow> bool" where
  "forward a b = (a = b \<or> (a = StepUpload \<and> b = StepExtract) \<or> (a = StepExtract \<and> b = StepReview))"

subsection \<open>The component variant\<close>

text \<open>
  The controller with its upload component: the file whose upload request is in flight, and
  the file name carried by the pending timer that will call \<^verbatim>\<open>onFileUploaded\<close>. The
  drop zone and the button are rendered only while \<open>uploading\<close> is false. The progress
  interval may tick at any time (a failed request does not clear it). The processing
  component runs \<^verbatim>\<open>startProcessing\<close> when it is mounted. The review component is given no
  callback, so nothing it does reaches the controller.
\<close>

record App =
  controller :: Controller
  upload_view :: FileUploadState
  in_flight :: "File option"
  timer :: "string option"

definition App_initial :: App where
  "App_initial = \<lparr>controller = Index, upload_view = FileUpload, in_flight = None, timer = None\<rparr>"

datatype app_action =
    Drag string
  | DropFile File
  | ChooseFile File
  | ProgressTick
  | UploadAnswered "UploadBody fetched"
  | TimerFired
  | ProcessingRan "unit fetched" "unit fetched"

fun app_enabled :: "App \<Rightarrow> app_action \<Rightarrow> bool" where
  "app_enabled m (Drag event_type) = (currentState (controller m) = AppUpload \<and> \<not> uploading (upload_view m))"
| "app_enabled m (DropFile f) = (currentState (controller m) = AppUpload \<and> \<not> uploading (upload_view m))"
| "app_enabled m (ChooseFile f) = (currentState (controller m) = AppUpload \<and> \<not> uploading (upload_view m))"
| "app_enabled m ProgressTick = True"
| "app_enabled m (UploadAnswered r) = (in_flight m \<noteq> None)"
| "app_enabled m TimerFired = (timer m \<noteq> None)"
| "app_enabled m (ProcessingRan e v) = (currentState (controller m) = AppProcessing)"

definition started :: "File \<Rightarrow> FileUploadState \<times> request option \<Rightarrow> App \<Rightarrow> App" where
  "started f begun m =
     (case begun of
        (u, None) \<Rightarrow> m\<lparr>upload_view := u\<rparr>
      | (u, Some req) \<Rightarrow> m\<lparr>controller := handleProcessingStart (controller m), upload_view := u,
                            in_flight := Some f\<rparr>)"

fun app_perform :: "app_action \<Rightarrow> App \<Rightarrow> App" where
  "app_perform (Drag event_type) m = m\<lparr>upload_view := handleDrag event_type (upload_view m)\<rparr>"
| "app_perform (DropFile f) m = started f (handleDrop_begin f (upload_view m)) m"
| "app_perform (ChooseFile f) m = started f (handleFile_begin f (upload_view m)) m"
| "app_perform ProgressTick m = m\<lparr>upload_view := progress_tick (upload_view m)\<rparr>"
| "app_perform (UploadAnswered r) m =
     (case in_flight m of
        None \<Rightarrow> m
      | Some f \<Rightarrow> m\<lparr>upload_view := fst (handleFile_settle f r (upload_view m)), in_flight := None,
                      timer := snd (handleFile_settle f r (upload_view m))\<rparr>)"
| "app_perform TimerFired m =
     (case timer m of
        None \<Rightarrow> m
      | Some uploadedFilename' \<Rightarrow>
          m\<lparr>controller := handleFileUploaded uploadedFilename' (controller m), timer := None\<rparr>)"
| "app_perform (ProcessingRan e v) m =
     (case startProcessing e v of
        None \<Rightarrow> m
      | Some data \<Rightarrow> m\<lparr>controller := handleProcessingComplete data (controller m)\<rparr>)"

inductive app_reachable :: "App \<Rightarrow> bool" where
  app_initial: "app_reachable App_initial"
| app_step: "app_reachable m \<Longrightarrow> app_enabled m a \<Longrightarrow> app_reachable (app_perform a m)"

fun app_run :: "app_action list \<Rightarrow> App \<Rightarrow> App option" where
  "app_run [] m = Some m"
| "app_run (a # rest) m = (if app_enabled m a then app_run rest (app_perform a m) else None)"

definition app_forward :: "AppState \<Rightarrow> AppState \<Rightarrow> bool" where
  "app_forward a b =
     (a = b \<or> (a = AppUpload \<and> b = AppProcessing) \<or> (a = AppProcessing \<and> b = AppReview))"

subsection \<open>The review component\<close>

text \<open>
  The review component with what is pending around it: the analyze requests in flight and
  the runs of \<^verbatim>\<open>analyzeAllPages\<close>. A run holds the pages it filtered when it started and
  the number of them it has called; it awaits its call, or sleeps for the delay given to
  \<^verbatim>\<open>setTimeout\<close>, or has finished. \<open>pages_at_start\<close> records the page collection
  as it was when the run started. Each request records who issued it, a run or a
  single call (the button of a card, or Save). \<open>history\<close> lists every request ever
  issued, in order. The download buttons change nothing here.
\<close>

datatype phase = Awaiting | Sleeping nat | Finished

record batch =
  pages_at_start :: "PageData list"
  unanalyzedPages :: "PageData list"
  position :: nat
  phase :: phase

record call =
  owner :: "nat option"
  call_page :: int
  call_request :: request

record Review =
  view :: ReviewState
  flying :: "call list"
  batches :: "batch list"
  history :: "call list"

definition Review_initial :: "PageData list \<Rightarrow> Review" where
  "Review_initial data = \<lparr>view = ResultsReview data, flying = [], batches = [], history = []\<rparr>"

text \<open>A call of \<^verbatim>\<open>analyzeContent\<close> up to its \<^verbatim>\<open>await\<close>, with its request now in flight.\<close>

definition issue :: "nat option \<Rightarrow> int \<Rightarrow> string \<Rightarrow> Review \<Rightarrow> Review" where
  "issue who pageNumber content m =
     (let c = \<lparr>owner = who, call_page = pageNumber,
                call_request = snd (analyzeContent_begin pageNumber content (view m))\<rparr>
      in m\<lparr>view := fst (analyzeContent_begin pageNumber content (view m)),
            flying := flying m @ [c], history := history m @ [c]\<rparr>)"

text \<open>
  \<^verbatim>\<open>analyzeAllPages\<close> up to its first \<^verbatim>\<open>await\<close>: the pages are filtered and the
  first of them is called. The new run is the last of \<open>batches\<close>.
\<close>

definition analyzeAllPages_begin :: "Review \<Rightarrow> Review" where
  "analyzeAllPages_begin m =
     (let unanalyzed = filter (\<lambda>p. optimized_details p = Null) (pages (view m))
      in case unanalyzed of
           [] \<Rightarrow> m\<lparr>batches := batches m @
                    [\<lparr>pages_at_start = pages (view m), unanalyzedPages = [], position = 0,
                      phase = Finished\<rparr>]\<rparr>
         | page # rest \<Rightarrow>
             issue (Some (length (batches m))) (page_number page) (analyze_contents page)
               (m\<lparr>batches := batches m @
                    [\<lparr>pages_at_start = pages (view m), unanalyzedPages = unanalyzed,
                      position = 1, phase = Awaiting\<rparr>]\<rparr>))"

text \<open>The request \<open>i\<close> in flight settles; the run that awaited it goes to sleep for 500 ms.\<close>

definition settle :: "nat \<Rightarrow> AnalysisResult fetched \<Rightarrow> Review \<Rightarrow> Review" where
  "settle i r m =
     (let c = flying m ! i
      in m\<lparr>view := analyzeContent_settle (call_page c) r (view m),
            flying := take i (flying m) @ drop (Suc i) (flying m),
            batches := (case owner c of
                          None \<Rightarrow> batches m
                        | Some k \<Rightarrow> (batches m)[k := (batches m ! k)\<lparr>phase := Sleeping 500\<rparr>])\<rparr>)"

text \<open>The sleep of run \<open>k\<close> is over: the loop calls its next page, or ends.\<close>

definition analyzeAllPages_resume :: "nat \<Rightarrow> Review \<Rightarrow> Review" where
  "analyzeAllPages_resume k m =
     (let b = batches m ! k
      in if position b < length (unanalyzedPages b)
         then issue (Some k) (page_number (unanalyzedPages b ! position b))
                (analyze_contents (unanalyzedPages b ! position b))
                (m\<lparr>batches := (batches m)[k := b\<lparr>position := Suc (position b), phase := Awaiting\<rparr>]\<rparr>)
         else m\<lparr>batches := (batches m)[k := b\<lparr>phase := Finished\<rparr>]\<rparr>)"

text \<open>Save: \<^verbatim>\<open>saveEdit\<close> up to its \<^verbatim>\<open>await\<close>, with its request now in flight.\<close>

definition save :: "Review \<Rightarrow> Review" where
  "save m =
     (case (editingPage (view m), snd (saveEdit_begin (view m))) of
        (Some pageNumber, Some req) \<Rightarrow>
          m\<lparr>view := fst (saveEdit_begin (view m)),
            flying := flying m @ [\<lparr>owner = None, call_page = pageNumber, call_request = req\<rparr>],
            history := history m @ [\<lparr>owner = None, call_page = pageNumber, call_request = req\<rparr>]\<rparr>
      | _ \<Rightarrow> m\<lparr>view := fst (saveEdit_begin (view m))\<rparr>)"

text \<open>
  The card \<open>i\<close> shows the edit and the analyze button unless it is the card in edit mode,
  which shows the text area, Save and Cancel; the analyze button of a page that is marked
  as analyzing is disabled.
\<close>

datatype review_action =
    ClickAnalyze nat
  | ClickAnalyzeAll
  | CallSettled nat "AnalysisResult fetched"
  | SleepOver nat
  | ClickEdit nat
  | TypeText string
  | ClickSave
  | ClickCancel

definition editing_shown :: "ReviewState \<Rightarrow> bool" where
  "editing_shown s =
     (case editingPage s of None \<Rightarrow> False | Some n \<Rightarrow> List.member (map page_number (pages s)) n)"

fun review_enabled :: "Review \<Rightarrow> review_action \<Rightarrow> bool" where
  "review_enabled m (ClickAnalyze i) =
     (i < length (pages (view m))
      \<and> editingPage (view m) \<noteq> Some (page_number (pages (view m) ! i))
      \<and> \<not> List.member (analyzing (view m)) (page_number (pages (view m) ! i)))"
| "review_enabled m ClickAnalyzeAll = (\<not> analyzeAll_disabled (view m))"
| "review_enabled m (CallSettled i r) = (i < length (flying m))"
| "review_enabled m (SleepOver k) =
     (k < length (batches m) \<and> (case phase (batches m ! k) of Sleeping d \<Rightarrow> True | _ \<Rightarrow> False))"
| "review_enabled m (ClickEdit i) =
     (i < length (pages (view m))
      \<and> editingPage (view m) \<noteq> Some (page_number (pages (view m) ! i)))"
| "review_enabled m (TypeText t) = editing_shown (view m)"
| "review_enabled m ClickSave = editing_shown (view m)"
| "review_enabled m ClickCancel = editing_shown (view m)"

fun review_perform :: "review_action \<Rightarrow> Review \<Rightarrow> Review" where
  "review_perform (ClickAnalyze i) m =
     issue None (page_number (pages (view m) ! i)) (analyze_contents (pages (view m) ! i)) m"
| "review_perform ClickAnalyzeAll m = analyzeAllPages_begin m"
| "review_perform (CallSettled i r) m = settle i r m"
| "review_perform (SleepOver k) m = analyzeAllPages_resume k m"
| "review_perform (ClickEdit i) m = m\<lparr>view := startEditing (pages (view m) ! i) (view m)\<rparr>"
| "review_perform (TypeText t) m = m\<lparr>view := (view m)\<lparr>editContent := t\<rparr>\<rparr>"
| "review_perform ClickSave m = save m"
| "review_perform ClickCancel m = m\<lparr>view := cancelEdit (view m)\<rparr>"

inductive review_reachable :: "PageData list \<Rightarrow> Review \<Rightarrow> bool" for data where
  review_initial: "review_reachable data (Review_initial data)"
| review_step:
    "review_reachable data m \<Longrightarrow> review_enabled m a \<Longrightarrow> review_reachable data (review_perform a m)"

fun review_run :: "review_action list \<Rightarrow> Review \<Rightarrow> Review option" where
  "review_run [] m = Some m"
| "review_run (a # rest) m =
     (if review_enabled m a then review_run rest (review_perform a m) else None)"




section \<open>Auxiliary notions for the properties\<close>

text \<open>
  A request has failed when \<^verbatim>\<open>fetch\<close> rejects, when the response is not ok, or when its
  body cannot be read as JSON.
\<close>

definition failed :: "'b fetched \<Rightarrow> bool" where
  "failed r = (case r of NetworkError \<Rightarrow> True | Resolved resp \<Rightarrow> \<not> ok resp \<or> parsed resp = None)"

text \<open>The busy flags of the single-file page belong to the stage that sets them.\<close>

definition in_step :: "IndexState \<Rightarrow> bool" where
  "in_step s =
     ((isUploading s \<longrightarrow> currentStep s = StepUpload)
      \<and> (isExtracting s \<longrightarrow> currentStep s = StepExtract))"

text \<open>
  While an upload is in flight or its timer is pending, the upload view is busy and the
  controller is still at the upload stage; the two are never pending together.
\<close>

definition waiting :: "App \<Rightarrow> bool" where
  "waiting m =
     ((in_flight m \<noteq> None \<longrightarrow>
         uploading (upload_view m) \<and> currentState (controller m) = AppUpload \<and> timer m = None)
      \<and> (timer m \<noteq> None \<longrightarrow>
           uploading (upload_view m) \<and> currentState (controller m) = AppUpload))"




section \<open>The review component: analysis and editing\<close>

lemma pages_pages_effect: "pages (pages_effect s) = pages s"
  by (simp add: pages_effect_def Let_def)

lemma analyzing_pages_effect: "analyzing (pages_effect s) = analyzing s"
  by (simp add: pages_effect_def Let_def)

lemma pages_setPages: "pages (setPages f s) = f (pages s)"
  by (simp add: setPages_def pages_pages_effect)

lemma analyzing_setPages: "analyzing (setPages f s) = analyzing s"
  by (simp add: setPages_def analyzing_pages_effect)

lemma settle_failed:
  "failed r \<Longrightarrow> analyzeContent_settle n r s = s\<lparr>analyzing := filter (\<lambda>p. p \<noteq> n) (analyzing s)\<rparr>"
  by (auto simp: failed_def analyzeContent_settle_def split: fetched.splits option.splits)

lemma analyzing_settle:
  "analyzing (analyzeContent_settle n r s) = filter (\<lambda>p. p \<noteq> n) (analyzing s)"
  by (simp add: analyzeContent_settle_def Let_def analyzing_setPages split: fetched.splits option.splits)

lemma pages_settle_ok:
  "ok resp \<Longrightarrow> parsed resp = Some a \<Longrightarrow>
   pages (analyzeContent_settle n (Resolved resp) s) = map (merge_result n a) (pages s)"
  by (simp add: analyzeContent_settle_def Let_def pages_setPages)

text \<open>
  C10. Mounted with an empty page array, the review component computes \<open>allAnalyzed\<close> as
  true, so none of the download buttons is disabled although no page was analyzed, and
  its progress value is the division \<open>0 / 0\<close>, which is not a number: the division by
  the number of pages is not guarded.
\<close>

theorem C10_empty_pages:
  "allAnalyzed (ResultsReview []) = True
   \<and> download_disabled (ResultsReview []) = False
   \<and> analysisProgress (ResultsReview []) = times100 (js_div 0 0)
   \<and> analysisProgress (ResultsReview []) = NaN
   \<and> pages (ResultsReview []) = []"
  by (simp add: ResultsReview_def pages_effect_def download_disabled_def js_div_def)

text \<open>C10, read off: the flag is set, the buttons are live, the progress is not a number.\<close>

theorem C10_empty_pages_witness:
  "allAnalyzed (ResultsReview []) \<and> \<not> download_disabled (ResultsReview [])
   \<and> analysisProgress (ResultsReview []) = NaN"
  using C10_empty_pages by (simp add: js_div_def)

text \<open>
  C9. When the analyze request of the review component fails (the response is not ok, or
  \<^verbatim>\<open>fetch\<close> or the reading of the body throws), the call leaves every page record as
  it was: the state changes only in the list of pages marked as analyzing. And however
  the request settles, the page number is no longer in that list afterwards, while the
  marks of the other pages stay.
\<close>

theorem C9_analyze_failure_atomic:
  "(failed r \<longrightarrow>
      pages (analyzeContent_settle n r s) = pages s
      \<and> pages (analyzeContent n content r s) = pages s
      \<and> analyzeContent_settle n r s = s\<lparr>analyzing := filter (\<lambda>p. p \<noteq> n) (analyzing s)\<rparr>)
   \<and> n \<notin> set (analyzing (analyzeContent_settle n r s))
   \<and> n \<notin> set (analyzing (analyzeContent n content r s))
   \<and> analyzing (analyzeContent_settle n r s) = filter (\<lambda>p. p \<noteq> n) (analyzing s)
   \<and> analyzing (analyzeContent n content r s) = filter (\<lambda>p. p \<noteq> n) (analyzing s)"
proof -
  let ?marked = "fst (analyzeContent_begin n content s)"
  have begun: "pages ?marked = pages s" "analyzing ?marked = analyzing s @ [n]"
    by (simp_all add: analyzeContent_begin_def)
  have unmarked: "analyzing (analyzeContent_settle n r t) = filter (\<lambda>p. p \<noteq> n) (analyzing t)" for t
    by (rule analyzing_settle)
  have atomic: "analyzeContent_settle n r t = t\<lparr>analyzing := filter (\<lambda>p. p \<noteq> n) (analyzing t)\<rparr>"
    if "failed r" for t
    using that by (rule settle_failed)
  have "pages (analyzeContent n content r s) = pages s" if "failed r"
    using atomic [OF that, of ?marked] begun by (simp add: analyzeContent_def)
  moreover have "analyzing (analyzeContent n content r s) = filter (\<lambda>p. p \<noteq> n) (analyzing s)"
    using unmarked [of ?marked] begun by (simp add: analyzeContent_def)
  ultimately show ?thesis
    using atomic [of s] unmarked [of s] by simp
qed

text \<open>
  C9 at a response that is not ok, for page 2 of the sample data while page 1 is being
  analyzed as well: the pages are the sample pages still, and only page 1 stays marked.
\<close>

theorem C9_analyze_failure_atomic_witness:
  "failed (Resolved \<lparr>ok = False, redirected = False, blob = None,
       parsed = Some \<lparr>result_optimized_details = Value ''x'', result_is_important = Value True\<rparr>\<rparr>)
   \<and> pages (analyzeContent 2 ''text''
         (Resolved \<lparr>ok = False, redirected = False, blob = None,
            parsed = Some \<lparr>result_optimized_details = Value ''x'', result_is_important = Value True\<rparr>\<rparr>)
         ((ResultsReview simulateDataExtraction)\<lparr>analyzing := [1]\<rparr>)) = simulateDataExtraction
   \<and> analyzing (analyzeContent 2 ''text''
         (Resolved \<lparr>ok = False, redirected = False, blob = None,
            parsed = Some \<lparr>result_optimized_details = Value ''x'', result_is_important = Value True\<rparr>\<rparr>)
         ((ResultsReview simulateDataExtraction)\<lparr>analyzing := [1]\<rparr>)) = [1]"
  using C9_analyze_failure_atomic [of
      "Resolved \<lparr>ok = False, redirected = False, blob = None,
         parsed = Some \<lparr>result_optimized_details = Value ''x'', result_is_important = Value True\<rparr>\<rparr>"
      2 "(ResultsReview simulateDataExtraction)\<lparr>analyzing := [1]\<rparr>" "''text''"]
  by (simp add: failed_def ResultsReview_def pages_effect_def Let_def)

lemma merge_result_frame:
  "list_all2 (\<lambda>p p'. page_number p' = page_number p \<and> analyze_contents p' = analyze_contents p
       \<and> (page_number p \<noteq> n \<longrightarrow> p' = p)
       \<and> (page_number p = n \<longrightarrow> p' = p\<lparr>optimized_details := result_optimized_details a,
                                          is_important := result_is_important a\<rparr>))
     ps (map (merge_result n a) ps)"
  by (induction ps) (simp_all add: merge_result_def)

lemma map_of_put: "map_of (put k v page) = (map_of page)(k \<mapsto> v)"
  by (induction page) (auto simp: fun_eq_iff)

lemma map_of_fold_put:
  "distinct (map fst data) \<Longrightarrow>
   map_of (fold (\<lambda>(k, v) acc. put k v acc) data page) k =
     (case map_of data k of Some v \<Rightarrow> Some v | None \<Rightarrow> map_of page k)"
proof (induction data arbitrary: page)
  case Nil
  then show ?case by simp
next
  case (Cons x data)
  obtain k' v' where x: "x = (k', v')" by (cases x)
  from Cons.prems have d: "distinct (map fst data)" and nk: "k' \<notin> fst ` set data"
    by (simp_all add: x)
  have "map_of data k' = None" using nk by (simp add: map_of_eq_None_iff)
  then show ?case
    using Cons.IH [OF d, of "put k' v' page"] by (auto simp: x map_of_put split: option.splits)
qed

lemma get_prop_spread:
  "distinct (map fst data) \<Longrightarrow>
   get_prop (spread page data) k =
     (case get_prop data k of Some v \<Rightarrow> Some v | None \<Rightarrow> get_prop page k)"
  by (simp add: get_prop_def spread_def map_of_fold_put split: option.splits)

lemma spread_matching_frame:
  "distinct (map fst data) \<Longrightarrow>
   list_all2 (\<lambda>p p'. (get_prop p ''page_number'' \<noteq> Some (JNum n) \<longrightarrow> p' = p)
       \<and> (get_prop p ''page_number'' = Some (JNum n) \<longrightarrow>
            (\<forall>k. get_prop p' k =
                   (case get_prop data k of Some v \<Rightarrow> Some v | None \<Rightarrow> get_prop p k))))
     ps (map (spread_matching n data) ps)"
  by (induction ps) (simp_all add: spread_matching_def get_prop_spread)

lemma pagesData_analyzeText_ok:
  "ok resp \<Longrightarrow> parsed resp = Some data \<Longrightarrow>
   pagesData (analyzeText_settle n (Resolved resp) s) = map (spread_matching n data) (pagesData s)"
  by (simp add: analyzeText_settle_def Let_def)

text \<open>
  C3. A successful single-page analyze call changes only the records whose
  \<open>page_number\<close> is the one of the call. In the review component (\<open>analyzeContent\<close>,
  the call behind the button of a card, Save and analyze-all) such a record keeps its
  \<open>page_number\<close> and its \<open>analyze_contents\<close> and takes \<open>optimized_details\<close> and
  \<open>is_important\<close> from the response; every other record is as before and nothing else
  is merged. \<open>analyzeText\<close> of the single-file page, which no control of that page
  calls, writes the properties of the response body over the record; for a body of the
  analyze contract, which carries \<open>optimized_details\<close> and \<open>is_important\<close> only,
  every other property of the record and every other record is as before.
\<close>

theorem C3_analyze_merges:
  "(ok resp \<longrightarrow> parsed resp = Some a \<longrightarrow>
      list_all2 (\<lambda>p p'. page_number p' = page_number p \<and> analyze_contents p' = analyze_contents p
            \<and> (page_number p \<noteq> n \<longrightarrow> p' = p)
            \<and> (page_number p = n \<longrightarrow> p' = p\<lparr>optimized_details := result_optimized_details a,
                                               is_important := result_is_important a\<rparr>))
        (pages s) (pages (analyzeContent_settle n (Resolved resp) s)))
   \<and> (ok resp' \<longrightarrow> parsed resp' = Some data \<longrightarrow> distinct (map fst data) \<longrightarrow>
        list_all2 (\<lambda>p p'. (get_prop p ''page_number'' \<noteq> Some (JNum n) \<longrightarrow> p' = p)
              \<and> (get_prop p ''page_number'' = Some (JNum n) \<longrightarrow>
                   (\<forall>k. get_prop p' k =
                          (case get_prop data k of Some v \<Rightarrow> Some v | None \<Rightarrow> get_prop p k))))
          (pagesData t) (pagesData (analyzeText_settle n (Resolved resp') t)))
   \<and> (ok resp' \<longrightarrow> parsed resp' = Some data \<longrightarrow> distinct (map fst data) \<longrightarrow>
        (\<forall>k. k \<noteq> ''optimized_details'' \<and> k \<noteq> ''is_important'' \<longrightarrow> get_prop data k = None) \<longrightarrow>
        list_all2 (\<lambda>p p'. \<forall>k. k \<noteq> ''optimized_details'' \<and> k \<noteq> ''is_important'' \<longrightarrow>
                                get_prop p' k = get_prop p k)
          (pagesData t) (pagesData (analyzeText_settle n (Resolved resp') t)))"
proof (intro conjI impI)
  assume "ok resp" and "parsed resp = Some a"
  then have "pages (analyzeContent_settle n (Resolved resp) s) = map (merge_result n a) (pages s)"
    by (rule pages_settle_ok)
  then show "list_all2 (\<lambda>p p'. page_number p' = page_number p \<and> analyze_contents p' = analyze_contents p
            \<and> (page_number p \<noteq> n \<longrightarrow> p' = p)
            \<and> (page_number p = n \<longrightarrow> p' = p\<lparr>optimized_details := result_optimized_details a,
                                               is_important := result_is_important a\<rparr>))
        (pages s) (pages (analyzeContent_settle n (Resolved resp) s))"
    by (simp add: merge_result_frame)
next
  assume "ok resp'" and "parsed resp' = Some data" and d: "distinct (map fst data)"
  then have eq: "pagesData (analyzeText_settle n (Resolved resp') t) =
      map (spread_matching n data) (pagesData t)"
    by (simp add: pagesData_analyzeText_ok)
  show overlay: "list_all2 (\<lambda>p p'. (get_prop p ''page_number'' \<noteq> Some (JNum n) \<longrightarrow> p' = p)
              \<and> (get_prop p ''page_number'' = Some (JNum n) \<longrightarrow>
                   (\<forall>k. get_prop p' k =
                          (case get_prop data k of Some v \<Rightarrow> Some v | None \<Rightarrow> get_prop p k))))
          (pagesData t) (pagesData (analyzeText_settle n (Resolved resp') t))"
    using d by (simp add: eq spread_matching_frame)
  assume only: "\<forall>k. k \<noteq> ''optimized_details'' \<and> k \<noteq> ''is_important'' \<longrightarrow> get_prop data k = None"
  show "list_all2 (\<lambda>p p'. \<forall>k. k \<noteq> ''optimized_details'' \<and> k \<noteq> ''is_important'' \<longrightarrow>
                                get_prop p' k = get_prop p k)
          (pagesData t) (pagesData (analyzeText_settle n (Resolved resp') t))"
  proof (rule list_all2_mono [OF overlay])
    fix p p'
    assume step: "(get_prop p ''page_number'' \<noteq> Some (JNum n) \<longrightarrow> p' = p)
              \<and> (get_prop p ''page_number'' = Some (JNum n) \<longrightarrow>
                   (\<forall>k. get_prop p' k =
                          (case get_prop data k of Some v \<Rightarrow> Some v | None \<Rightarrow> get_prop p k)))"
    show "\<forall>k. k \<noteq> ''optimized_details'' \<and> k \<noteq> ''is_important'' \<longrightarrow> get_prop p' k = get_prop p k"
    proof (cases "get_prop p ''page_number'' = Some (JNum n)")
      case True
      with step only show ?thesis by simp
    next
      case False
      with step show ?thesis by simp
    qed
  qed
qed

text \<open>
  C3 at the answer \<open>Summary A\<close>, important, for page 1 of two pages, in both variants:
  page 1 takes the two values and page 2 is as before.
\<close>

theorem C3_analyze_merges_witness:
  "pages (analyzeContent_settle 1
       (Resolved \<lparr>ok = True, redirected = False, blob = None,
          parsed = Some \<lparr>result_optimized_details = Value ''Summary A'', result_is_important = Value True\<rparr>\<rparr>)
       (ResultsReview simulateDataExtraction)) =
     [\<lparr>page_number = 1, analyze_contents = ''Sample extracted Thai text from page 1...'',
       optimized_details = Value ''Summary A'', is_important = Value True\<rparr>,
      \<lparr>page_number = 2, analyze_contents = ''Sample extracted Thai text from page 2...'',
       optimized_details = Null, is_important = Null\<rparr>]
   \<and> pagesData (analyzeText_settle 1
         (Resolved \<lparr>ok = True, redirected = False, blob = None,
            parsed = Some [(''optimized_details'', JStr ''Summary A''), (''is_important'', JBool True)]\<rparr>)
         (IndexA\<lparr>pagesData := [[(''page_number'', JNum 1), (''analyze_contents'', JStr ''a''),
                                  (''optimized_details'', JNull), (''is_important'', JNull)],
                                 [(''page_number'', JNum 2), (''analyze_contents'', JStr ''b''),
                                  (''optimized_details'', JNull), (''is_important'', JNull)]]\<rparr>)) =
       [[(''page_number'', JNum 1), (''analyze_contents'', JStr ''a''),
         (''optimized_details'', JStr ''Summary A''), (''is_important'', JBool True)],
        [(''page_number'', JNum 2), (''analyze_contents'', JStr ''b''),
         (''optimized_details'', JNull), (''is_important'', JNull)]]"
  using C3_analyze_merges [of
      "\<lparr>ok = True, redirected = False, blob = None,
        parsed = Some \<lparr>result_optimized_details = Value ''Summary A'', result_is_important = Value True\<rparr>\<rparr>"
      "\<lparr>result_optimized_details = Value ''Summary A'', result_is_important = Value True\<rparr>"
      1 "ResultsReview simulateDataExtraction"
      "\<lparr>ok = True, redirected = False, blob = None,
        parsed = Some [(''optimized_details'', JStr ''Summary A''), (''is_important'', JBool True)]\<rparr>"
      "[(''optimized_details'', JStr ''Summary A''), (''is_important'', JBool True)]"
      "IndexA\<lparr>pagesData := [[(''page_number'', JNum 1), (''analyze_contents'', JStr ''a''),
                               (''optimized_details'', JNull), (''is_important'', JNull)],
                              [(''page_number'', JNum 2), (''analyze_contents'', JStr ''b''),
                               (''optimized_details'', JNull), (''is_important'', JNull)]]\<rparr>"]
  by (simp add: analyzeContent_settle_def setPages_def pages_effect_def Let_def ResultsReview_def
      simulateDataExtraction_def merge_result_def analyzeText_settle_def IndexA_def
      spread_matching_def spread_def get_prop_def)

lemma saveEdit_begin_Some:
  "editingPage s = Some n \<Longrightarrow>
   saveEdit_begin s =
     ((setPages (map (commit_edit n (editContent s))) s)
        \<lparr>editingPage := None, editContent := [], analyzing := analyzing s @ [n]\<rparr>,
      Some (analyze_request n (editContent s)))"
  by (simp add: saveEdit_begin_def Let_def analyzeContent_begin_def analyzing_setPages)

lemma commit_edit_frame:
  "list_all2 (\<lambda>p p'. page_number p' = page_number p \<and> (page_number p \<noteq> n \<longrightarrow> p' = p)
       \<and> (page_number p = n \<longrightarrow>
            analyze_contents p' = c \<and> optimized_details p' = Null \<and> is_important p' = Null))
     ps (map (commit_edit n c) ps)"
  by (induction ps) (simp_all add: commit_edit_def)

text \<open>
  C2. With page \<open>n\<close> in edit mode, Save leads to a state, reached before the re-analysis
  request settles, in which every record of page \<open>n\<close> has the edit buffer as its
  \<open>analyze_contents\<close> and has \<open>optimized_details\<close> and \<open>is_important\<close> absent
  (\<^verbatim>\<open>null\<close>), and every other record is as before; the buffer and the edit mode are
  cleared; exactly one request went out, the POST of \<open>/analyze\<close> that carries the
  buffer as its text and \<open>n\<close> as its page number, and page \<open>n\<close> is marked as
  analyzing. The call then continues as the analysis of page \<open>n\<close>.
  Cancel clears the buffer and the edit mode and changes nothing else, so every page
  record is as before.
\<close>

theorem C2_save_and_cancel:
  "editingPage s = Some n \<Longrightarrow>
     pages (fst (saveEdit_begin s)) = map (commit_edit n (editContent s)) (pages s)
     \<and> list_all2 (\<lambda>p p'. page_number p' = page_number p \<and> (page_number p \<noteq> n \<longrightarrow> p' = p)
           \<and> (page_number p = n \<longrightarrow> analyze_contents p' = editContent s
                 \<and> optimized_details p' = Null \<and> is_important p' = Null))
         (pages s) (pages (fst (saveEdit_begin s)))
     \<and> snd (saveEdit_begin s) =
         Some \<lparr>http_method = ''POST'', url = ''/analyze'',
               payload = AnalyzeBody (editContent s) n, credentials = None\<rparr>
     \<and> analyzing (fst (saveEdit_begin s)) = analyzing s @ [n]
     \<and> editingPage (fst (saveEdit_begin s)) = None
     \<and> editContent (fst (saveEdit_begin s)) = []
     \<and> saveEdit r s = analyzeContent_settle n r (fst (saveEdit_begin s))
     \<and> pages (cancelEdit s) = pages s
     \<and> cancelEdit s = s\<lparr>editingPage := None, editContent := []\<rparr>"
proof -
  assume editing: "editingPage s = Some n"
  let ?saved = "fst (saveEdit_begin s)"
  from editing have begun:
    "saveEdit_begin s =
       ((setPages (map (commit_edit n (editContent s))) s)
          \<lparr>editingPage := None, editContent := [], analyzing := analyzing s @ [n]\<rparr>,
        Some (analyze_request n (editContent s)))"
    by (rule saveEdit_begin_Some)
  then have committed: "pages ?saved = map (commit_edit n (editContent s)) (pages s)"
    by (simp add: pages_setPages)
  have frame: "list_all2 (\<lambda>p p'. page_number p' = page_number p \<and> (page_number p \<noteq> n \<longrightarrow> p' = p)
           \<and> (page_number p = n \<longrightarrow> analyze_contents p' = editContent s
                 \<and> optimized_details p' = Null \<and> is_important p' = Null))
         (pages s) (pages ?saved)"
    unfolding committed by (rule commit_edit_frame)
  have continues: "saveEdit r s = analyzeContent_settle n r ?saved"
    using editing by (simp add: saveEdit_def)
  have cancelled: "cancelEdit s = s\<lparr>editingPage := None, editContent := []\<rparr>"
    by (simp add: cancelEdit_def)
  have request: "snd (saveEdit_begin s) =
      Some \<lparr>http_method = ''POST'', url = ''/analyze'',
            payload = AnalyzeBody (editContent s) n, credentials = None\<rparr>"
    by (simp add: begun analyze_request_def)
  show ?thesis
    using committed frame continues cancelled request by (simp add: begun)
qed

text \<open>
  C2 on page 1 of two analyzed pages, opened for editing and with \<open>new text\<close> typed into
  the buffer: after Save, page 1 has the new text and no analysis, page 2 is untouched,
  and the request is the POST of \<open>/analyze\<close> for page 1 with the new text.
\<close>

theorem C2_save_and_cancel_witness:
  "editingPage ((startEditing \<lparr>page_number = 1, analyze_contents = ''old'',
         optimized_details = Value ''S1'', is_important = Value True\<rparr>
       (ResultsReview [\<lparr>page_number = 1, analyze_contents = ''old'',
           optimized_details = Value ''S1'', is_important = Value True\<rparr>,
         \<lparr>page_number = 2, analyze_contents = ''two'',
           optimized_details = Value ''S2'', is_important = Value False\<rparr>]))
       \<lparr>editContent := ''new text''\<rparr>) = Some 1
   \<and> pages (fst (saveEdit_begin ((startEditing \<lparr>page_number = 1, analyze_contents = ''old'',
         optimized_details = Value ''S1'', is_important = Value True\<rparr>
       (ResultsReview [\<lparr>page_number = 1, analyze_contents = ''old'',
           optimized_details = Value ''S1'', is_important = Value True\<rparr>,
         \<lparr>page_number = 2, analyze_contents = ''two'',
           optimized_details = Value ''S2'', is_important = Value False\<rparr>]))
       \<lparr>editContent := ''new text''\<rparr>))) =
       [\<lparr>page_number = 1, analyze_contents = ''new text'', optimized_details = Null, is_important = Null\<rparr>,
        \<lparr>page_number = 2, analyze_contents = ''two'', optimized_details = Value ''S2'',
         is_important = Value False\<rparr>]
   \<and> snd (saveEdit_begin ((startEditing \<lparr>page_number = 1, analyze_contents = ''old'',
         optimized_details = Value ''S1'', is_important = Value True\<rparr>
       (ResultsReview [\<lparr>page_number = 1, analyze_contents = ''old'',
           optimized_details = Value ''S1'', is_important = Value True\<rparr>,
         \<lparr>page_number = 2, analyze_contents = ''two'',
           optimized_details = Value ''S2'', is_important = Value False\<rparr>]))
       \<lparr>editContent := ''new text''\<rparr>)) =
       Some \<lparr>http_method = ''POST'', url = ''/analyze'', payload = AnalyzeBody ''new text'' 1,
             credentials = None\<rparr>"
  using C2_save_and_cancel [of
      "(startEditing \<lparr>page_number = 1, analyze_contents = ''old'',
         optimized_details = Value ''S1'', is_important = Value True\<rparr>
       (ResultsReview [\<lparr>page_number = 1, analyze_contents = ''old'',
           optimized_details = Value ''S1'', is_important = Value True\<rparr>,
         \<lparr>page_number = 2, analyze_contents = ''two'',
           optimized_details = Value ''S2'', is_important = Value False\<rparr>]))
       \<lparr>editContent := ''new text''\<rparr>" 1 NetworkError]
  by (simp add: startEditing_def ResultsReview_def pages_effect_def Let_def commit_edit_def)

section \<open>The review component: runs of analyze-all\<close>

















lemma review_run_reachable:
  "review_reachable data m \<Longrightarrow> review_run acts m = Some m' \<Longrightarrow> review_reachable data m'"
  by (induction acts arbitrary: m) (auto split: if_splits intro: review_reachable.review_step)














section \<open>Upload, extraction and download\<close>




text \<open>
  C5, as the code has it. In the single-file page (\<open>uploadFile\<close>) an upload response
  that is ok and whose body has the success flag moves the stage to extract, and the file
  name shown there is the one the body reports. The upload component (\<open>handleFile\<close>)
  does not read the status or the body: a redirected response makes it pass the name of
  the selected file to the controller, which moves to processing and shows that name; any
  other response is an upload failure, with a message and nothing passed on.
\<close>

theorem C5_upload_success:
  "(ok resp \<longrightarrow> parsed resp = Some data \<longrightarrow> upload_success data \<longrightarrow>
      currentStep (uploadFile_settle (Resolved resp) s) = StepExtract
      \<and> uploadedFilename (uploadFile_settle (Resolved resp) s) = upload_filename data
      \<and> shown_filename (uploadFile_settle (Resolved resp) s) = Some (upload_filename data))
   \<and> (redirected resp' \<longrightarrow>
        handleFile_settle f (Resolved resp') u = (u\<lparr>uploadProgress := 100\<rparr>, Some (name f))
        \<and> currentState (handleFileUploaded (name f) c) = AppProcessing
        \<and> Index_shown_filename (handleFileUploaded (name f) c) = Some (name f))
   \<and> (\<not> redirected resp' \<longrightarrow>
        handleFile_settle f (Resolved resp') u =
          (u\<lparr>upload_error := Some ''Upload failed. Please try again.'', uploading := False,
              uploadProgress := 0\<rparr>, None))"
proof -
  have single: "currentStep (uploadFile_settle (Resolved resp) s) = StepExtract
      \<and> uploadedFilename (uploadFile_settle (Resolved resp) s) = upload_filename data"
    if "ok resp" "parsed resp = Some data" "upload_success data"
    using that by (simp add: uploadFile_settle_def Let_def)
  have moved: "currentState (handleFileUploaded (name f) c) = AppProcessing
      \<and> filename (handleFileUploaded (name f) c) = name f"
    by (simp add: handleFileUploaded_def)
  show ?thesis
    using single moved
    by (simp add: shown_filename_def Index_shown_filename_def handleFile_settle_def)
qed

text \<open>
  C5 on the response \<open>filename = f.pdf\<close> in the single-file page, and on a redirected
  response for the selected file \<open>f.pdf\<close> in the upload component.
\<close>

theorem C5_upload_success_witness:
  "currentStep (uploadFile_settle
       (Resolved \<lparr>ok = True, redirected = False, blob = None,
          parsed = Some \<lparr>upload_success = True, upload_filename = ''f.pdf'', upload_failure = None\<rparr>\<rparr>)
       IndexA) = StepExtract
   \<and> shown_filename (uploadFile_settle
       (Resolved \<lparr>ok = True, redirected = False, blob = None,
          parsed = Some \<lparr>upload_success = True, upload_filename = ''f.pdf'', upload_failure = None\<rparr>\<rparr>)
       IndexA) = Some ''f.pdf''
   \<and> snd (handleFile_settle \<lparr>name = ''f.pdf'', type = ''application/pdf'', size_file = 2048\<rparr>
         (Resolved \<lparr>ok = True, redirected = True, blob = None, parsed = (None :: UploadBody option)\<rparr>)
         FileUpload) = Some ''f.pdf''
   \<and> Index_shown_filename (handleFileUploaded ''f.pdf'' Index) = Some ''f.pdf''"
  using C5_upload_success [of
      "\<lparr>ok = True, redirected = False, blob = None,
        parsed = Some \<lparr>upload_success = True, upload_filename = ''f.pdf'', upload_failure = None\<rparr>\<rparr>"
      "\<lparr>upload_success = True, upload_filename = ''f.pdf'', upload_failure = None\<rparr>"
      IndexA
      "\<lparr>ok = True, redirected = True, blob = None, parsed = (None :: UploadBody option)\<rparr>"
      "\<lparr>name = ''f.pdf'', type = ''application/pdf'', size_file = 2048\<rparr>"
      FileUpload Index]
  by simp

text \<open>
  C5 as stated fails in the upload component: the file \<open>f.pdf\<close> is chosen and the
  response is ok with the success flag and \<open>filename = f.pdf\<close> in its body, but it is not
  a redirected one. The controller stays at the upload stage, no timer is pending, and the
  component shows the failure message.
\<close>

theorem C5_not_redirected_counterexample:
  "app_run [ChooseFile \<lparr>name = ''f.pdf'', type = ''application/pdf'', size_file = 2048\<rparr>,
            UploadAnswered (Resolved \<lparr>ok = True, redirected = False, blob = None,
              parsed = Some \<lparr>upload_success = True, upload_filename = ''f.pdf'', upload_failure = None\<rparr>\<rparr>)]
       App_initial =
     Some \<lparr>controller = \<lparr>currentState = AppUpload, filename = [], extractedData = []\<rparr>,
           upload_view = \<lparr>dragActive = False, uploading = False, uploadProgress = 0,
                          upload_error = Some ''Upload failed. Please try again.''\<rparr>,
           in_flight = None, timer = None\<rparr>"
  by (simp add: App_initial_def Index_def FileUpload_def started_def handleFile_begin_def
      max_size_def handleProcessingStart_def handleFile_settle_def)

text \<open>
  C4, as the code has it. In the single-file page, for an extract response with \<open>N\<close>
  pages the review view shows exactly \<open>N\<close> cards, one per record, in the order of
  \<open>pages_data\<close>: the \<open>i\<close>-th card carries the page number of the \<open>i\<close>-th
  record. Nothing sorts the records, so the cards are in ascending order of page number
  when the response is. In the component variant the review component shows one card per
  record of the data it is given, in the order of that data; the processing component does
  not read the body of the extract response and, when it completes, hands over the two
  sample pages, so the cards there are those of page 1 and page 2, in this order.
\<close>

theorem C4_cards_in_response_order:
  "(ok resp \<longrightarrow> parsed resp = Some data \<longrightarrow> extract_success data \<longrightarrow>
      cards (extractText_settle (Resolved resp) s) = page_numbers (pages_data data)
      \<and> length (cards (extractText_settle (Resolved resp) s)) = length (pages_data data)
      \<and> (ascending (page_numbers (pages_data data)) \<longrightarrow>
           ascending (cards (extractText_settle (Resolved resp) s))))
   \<and> map card_page (ResultsReview_cards (ResultsReview given)) = map page_number given
   \<and> length (ResultsReview_cards (ResultsReview given)) = length given
   \<and> (startProcessing e v = Some pd \<longrightarrow>
        pd = simulateDataExtraction
        \<and> Index_cards (handleProcessingComplete pd c) = ResultsReview_cards (ResultsReview pd)
        \<and> map card_page (Index_cards (handleProcessingComplete pd c)) = [1, 2])"
proof -
  have A: "cards (extractText_settle (Resolved resp) s) = page_numbers (pages_data data)"
    if "ok resp" "parsed resp = Some data" "extract_success data"
    using that by (simp add: cards_def extractText_settle_def Let_def page_numbers_def)
  have B: "map card_page (ResultsReview_cards (ResultsReview ps)) = map page_number ps" for ps
    by (simp add: ResultsReview_cards_def ResultsReview_def pages_pages_effect render_card_def
        comp_def)
  have C: "length (ResultsReview_cards (ResultsReview given)) = length given"
    using arg_cong [OF B [of given], of length] by simp
  have D: "pd = simulateDataExtraction" if "startProcessing e v = Some pd"
    using that by (auto simp: startProcessing_def split: fetched.splits if_splits)
  have E: "Index_cards (handleProcessingComplete ps c) = ResultsReview_cards (ResultsReview ps)" for ps
    by (simp add: Index_cards_def handleProcessingComplete_def)
  have F: "map page_number simulateDataExtraction = [1, 2]"
    by (simp add: simulateDataExtraction_def)
  have G: "map card_page (Index_cards (handleProcessingComplete pd c)) = [1, 2]"
    if "startProcessing e v = Some pd"
    using D [OF that] by (simp add: E B F)
  show ?thesis
  proof (intro conjI impI)
    assume h: "ok resp" "parsed resp = Some data" "extract_success data"
    from A [OF h] show "cards (extractText_settle (Resolved resp) s) = page_numbers (pages_data data)" .
    from A [OF h] show "length (cards (extractText_settle (Resolved resp) s)) = length (pages_data data)"
      by (simp add: page_numbers_def)
    assume "ascending (page_numbers (pages_data data))"
    with A [OF h] show "ascending (cards (extractText_settle (Resolved resp) s))" by simp
  next
    show "map card_page (ResultsReview_cards (ResultsReview given)) = map page_number given"
      by (rule B)
    show "length (ResultsReview_cards (ResultsReview given)) = length given"
      by (rule C)
  next
    assume sp: "startProcessing e v = Some pd"
    from D [OF sp] show "pd = simulateDataExtraction" .
    show "Index_cards (handleProcessingComplete pd c) = ResultsReview_cards (ResultsReview pd)"
      by (rule E)
    from G [OF sp] show "map card_page (Index_cards (handleProcessingComplete pd c)) = [1, 2]" .
  qed
qed

text \<open>
  C4 on a response with pages 1 and 2 in this order, and on a run of the processing
  component whose two requests succeed.
\<close>

theorem C4_cards_in_response_order_witness:
  "cards (extractText_settle
       (Resolved \<lparr>ok = True, redirected = False, blob = None,
          parsed = Some \<lparr>extract_success = True,
            pages_data = [[(''page_number'', JNum 1), (''analyze_contents'', JStr ''a'')],
                          [(''page_number'', JNum 2), (''analyze_contents'', JStr ''b'')]],
            total_pages = 2, extract_failure = None\<rparr>\<rparr>) IndexA) = [Some (JNum 1), Some (JNum 2)]
   \<and> ascending (cards (extractText_settle
       (Resolved \<lparr>ok = True, redirected = False, blob = None,
          parsed = Some \<lparr>extract_success = True,
            pages_data = [[(''page_number'', JNum 1), (''analyze_contents'', JStr ''a'')],
                          [(''page_number'', JNum 2), (''analyze_contents'', JStr ''b'')]],
            total_pages = 2, extract_failure = None\<rparr>\<rparr>) IndexA))
   \<and> map_option (\<lambda>pd. map card_page (Index_cards (handleProcessingComplete pd Index)))
        (startProcessing
           (Resolved \<lparr>ok = True, redirected = True, blob = None, parsed = (None :: unit option)\<rparr>)
           (Resolved \<lparr>ok = True, redirected = False, blob = None, parsed = (None :: unit option)\<rparr>))
       = Some [1, 2]"
proof -
  let ?data = "\<lparr>extract_success = True,
            pages_data = [[(''page_number'', JNum 1), (''analyze_contents'', JStr ''a'')],
                          [(''page_number'', JNum 2), (''analyze_contents'', JStr ''b'')]],
            total_pages = 2, extract_failure = None\<rparr>"
  let ?resp = "\<lparr>ok = True, redirected = False, blob = None, parsed = Some ?data\<rparr>"
  let ?e = "Resolved \<lparr>ok = True, redirected = True, blob = None, parsed = (None :: unit option)\<rparr>"
  let ?v = "Resolved \<lparr>ok = True, redirected = False, blob = None, parsed = (None :: unit option)\<rparr>"
  note inst = C4_cards_in_response_order [of ?resp ?data IndexA simulateDataExtraction ?e ?v
      simulateDataExtraction Index]
  have ran: "startProcessing ?e ?v = Some simulateDataExtraction"
    by (simp add: startProcessing_def)
  from inst have "cards (extractText_settle (Resolved ?resp) IndexA) = page_numbers (pages_data ?data)"
    by simp
  then have shown: "cards (extractText_settle (Resolved ?resp) IndexA) = [Some (JNum 1), Some (JNum 2)]"
    by (simp add: page_numbers_def get_prop_def)
  from inst ran
  have sample: "map card_page (Index_cards (handleProcessingComplete simulateDataExtraction Index)) = [1, 2]"
    by blast
  show ?thesis
    unfolding shown ran by (simp add: sample ascending_def)
qed

text \<open>
  C4 as stated fails: an extract response that lists page 2 before page 1 gives two cards,
  page 2 first, which is not the ascending order.
\<close>

theorem C4_unsorted_response_counterexample:
  "cards (extractText_settle
       (Resolved \<lparr>ok = True, redirected = False, blob = None,
          parsed = Some \<lparr>extract_success = True,
            pages_data = [[(''page_number'', JNum 2), (''analyze_contents'', JStr ''b'')],
                          [(''page_number'', JNum 1), (''analyze_contents'', JStr ''a'')]],
            total_pages = 2, extract_failure = None\<rparr>\<rparr>) IndexA) = [Some (JNum 2), Some (JNum 1)]
   \<and> \<not> ascending (cards (extractText_settle
       (Resolved \<lparr>ok = True, redirected = False, blob = None,
          parsed = Some \<lparr>extract_success = True,
            pages_data = [[(''page_number'', JNum 2), (''analyze_contents'', JStr ''b'')],
                          [(''page_number'', JNum 1), (''analyze_contents'', JStr ''a'')]],
            total_pages = 2, extract_failure = None\<rparr>\<rparr>) IndexA))"
  by (simp add: cards_def extractText_settle_def IndexA_def get_prop_def ascending_def)

text \<open>
  C7 on the file \<open>scan.PDF\<close>. The upload component accepts it (its MIME type has
  \<open>pdf\<close>) and, after a redirected response, the controller holds \<open>scan.PDF\<close> as the
  file name. The csv download is a GET of \<open>/download/csv\<close> (\<open>/api/download/csv\<close> in
  the single-file page), and the file offered is named \<open>scan.PDF.csv\<close>, not
  \<open>scan.csv\<close>: only the first \<open>.pdf\<close> in lower case is removed from the name. The
  name \<open>doc.pdf\<close> gives \<open>doc.csv\<close>; \<open>report.pdf.old.pdf\<close> gives
  \<open>report.old.pdf.csv\<close>.
\<close>

theorem C7_download_name_keeps_extension:
  "map_option (\<lambda>m. (currentState (controller m), filename (controller m)))
     (app_run [ChooseFile \<lparr>name = ''scan.PDF'', type = ''application/pdf'', size_file = 2097152\<rparr>,
               UploadAnswered (Resolved \<lparr>ok = True, redirected = True, blob = None, parsed = None\<rparr>),
               TimerFired,
               ProcessingRan (Resolved \<lparr>ok = True, redirected = True, blob = None, parsed = None\<rparr>)
                             (Resolved \<lparr>ok = True, redirected = False, blob = None, parsed = None\<rparr>)]
        App_initial) = Some (AppReview, ''scan.PDF'')
   \<and> http_method (ResultsReview_download_request CSV) = ''GET''
   \<and> url (ResultsReview_download_request CSV) = ''/download/csv''
   \<and> ResultsReview_downloadResults ''scan.PDF'' CSV
        (Resolved \<lparr>ok = True, redirected = False, blob = Some ''1,a'', parsed = (None :: unit option)\<rparr>) =
      Some (''scan.PDF.csv'', ''1,a'')
   \<and> url (download_request CSV) = ''/api/download/csv''
   \<and> snd (downloadResults_settle ''scan.PDF'' CSV
        (Resolved \<lparr>ok = True, redirected = False, blob = Some ''1,a'', parsed = None\<rparr>) IndexA) =
      Some (''scan.PDF.csv'', ''1,a'')
   \<and> download_name ''doc.pdf'' CSV = ''doc.csv''
   \<and> download_name ''report.pdf.old.pdf'' CSV = ''report.old.pdf.csv''"
  by (simp add: App_initial_def Index_def FileUpload_def started_def handleFile_begin_def
      max_size_def handleProcessingStart_def handleFile_settle_def handleFileUploaded_def startProcessing_def
      handleProcessingComplete_def ResultsReview_download_request_def download_request_def
      ResultsReview_downloadResults_def downloadResults_settle_def download_name_def)

section \<open>The stage only moves forward\<close>

lemma handleFileSelect_keeps:
  "currentStep (fst (handleFileSelect f s)) = currentStep s"
  "isUploading (fst (handleFileSelect f s)) = isUploading s"
  "isExtracting (fst (handleFileSelect f s)) = isExtracting s"
  by (simp_all add: handleFileSelect_def)

lemma downloadResults_keeps:
  "currentStep (fst (downloadResults_settle fname fmt r s)) = currentStep s"
  "isUploading (fst (downloadResults_settle fname fmt r s)) = isUploading s"
  "isExtracting (fst (downloadResults_settle fname fmt r s)) = isExtracting s"
  by (simp_all add: downloadResults_settle_def Let_def split: fetched.splits option.splits)

lemma in_step_perform:
  assumes "in_step s" and "enabled s a"
  shows "in_step (perform a s)"
proof (cases a)
  case (SelectFile f)
  with assms show ?thesis by (simp add: in_step_def handleFileSelect_keeps)
next
  case ClickUpload
  with assms show ?thesis by (auto simp: in_step_def uploadFile_begin_def split: option.splits)
next
  case (UploadSettled r)
  with assms show ?thesis
    by (auto simp: in_step_def uploadFile_settle_def Let_def split: fetched.splits option.splits)
next
  case ClickExtract
  with assms show ?thesis by (auto simp: in_step_def extractText_begin_def)
next
  case (ExtractSettled r)
  with assms show ?thesis
    by (auto simp: in_step_def extractText_settle_def Let_def split: fetched.splits option.splits)
next
  case (DownloadSettled fname fmt r)
  with assms show ?thesis by (simp add: in_step_def downloadResults_keeps)
next
  case ClickStartOver
  with assms show ?thesis by (auto simp: in_step_def resetProcess_def)
qed

lemma reachable_in_step: "reachable s \<Longrightarrow> in_step s"
proof (induction rule: reachable.induct)
  case initial
  show ?case by (simp add: in_step_def IndexA_def)
next
  case (step s a)
  then show ?case by (simp add: in_step_perform)
qed

lemma forward_perform:
  assumes "in_step s" and "enabled s a" and "a \<noteq> ClickStartOver"
  shows "forward (currentStep s) (currentStep (perform a s))"
proof (cases a)
  case (SelectFile f)
  then show ?thesis by (simp add: forward_def handleFileSelect_keeps)
next
  case ClickUpload
  then show ?thesis by (simp add: forward_def uploadFile_begin_def split: option.splits)
next
  case (UploadSettled r)
  with assms have "currentStep s = StepUpload" by (simp add: in_step_def)
  then show ?thesis
    by (simp add: UploadSettled forward_def uploadFile_settle_def Let_def
        split: fetched.splits option.splits)
next
  case ClickExtract
  then show ?thesis by (simp add: forward_def extractText_begin_def)
next
  case (ExtractSettled r)
  with assms have "currentStep s = StepExtract" by (simp add: in_step_def)
  then show ?thesis
    by (simp add: ExtractSettled forward_def extractText_settle_def Let_def
        split: fetched.splits option.splits)
next
  case (DownloadSettled fname fmt r)
  then show ?thesis by (simp add: forward_def downloadResults_keeps)
next
  case ClickStartOver
  with assms show ?thesis by simp
qed

lemma run_reachable: "reachable s \<Longrightarrow> run acts s = Some s' \<Longrightarrow> reachable s'"
  by (induction acts arbitrary: s) (auto split: if_splits intro: reachable.step)

lemma waiting_started:
  assumes "waiting m" and "currentState (controller m) = AppUpload"
    and "\<not> uploading (upload_view m)"
  shows "waiting (started f (handleFile_begin f u) m)"
  using assms
  by (auto simp: waiting_def started_def handleFile_begin_def handleProcessingStart_def)

lemma controller_started:
  "currentState (controller (started f begun m)) = currentState (controller m)"
  by (simp add: started_def handleProcessingStart_def split: prod.splits option.splits)

lemma waiting_perform:
  assumes "waiting m" and "app_enabled m a"
  shows "waiting (app_perform a m)"
proof (cases a)
  case (Drag event_type)
  with assms show ?thesis by (auto simp: waiting_def handleDrag_def)
next
  case (DropFile f)
  with assms show ?thesis by (simp add: handleDrop_begin_def waiting_started)
next
  case (ChooseFile f)
  with assms show ?thesis by (simp add: waiting_started)
next
  case ProgressTick
  with assms show ?thesis by (auto simp: waiting_def progress_tick_def)
next
  case (UploadAnswered r)
  with assms show ?thesis
    by (auto simp: waiting_def handleFile_settle_def Let_def split: fetched.splits)
next
  case TimerFired
  with assms show ?thesis by (auto simp: waiting_def handleFileUploaded_def)
next
  case (ProcessingRan e v)
  with assms show ?thesis
    by (auto simp: waiting_def handleProcessingComplete_def split: option.splits)
qed

lemma app_reachable_waiting: "app_reachable m \<Longrightarrow> waiting m"
proof (induction rule: app_reachable.induct)
  case app_initial
  show ?case by (simp add: waiting_def App_initial_def)
next
  case (app_step m a)
  then show ?case by (simp add: waiting_perform)
qed

lemma app_forward_perform:
  assumes "waiting m" and "app_enabled m a"
  shows "app_forward (currentState (controller m)) (currentState (controller (app_perform a m)))"
proof (cases a)
  case (Drag event_type)
  then show ?thesis by (simp add: app_forward_def)
next
  case (DropFile f)
  then show ?thesis by (simp add: app_forward_def controller_started)
next
  case (ChooseFile f)
  then show ?thesis by (simp add: app_forward_def controller_started)
next
  case ProgressTick
  then show ?thesis by (simp add: app_forward_def)
next
  case (UploadAnswered r)
  then show ?thesis by (simp add: app_forward_def split: option.splits)
next
  case TimerFired
  with assms have "currentState (controller m) = AppUpload" by (simp add: waiting_def)
  then show ?thesis
    by (simp add: TimerFired app_forward_def handleFileUploaded_def split: option.splits)
next
  case (ProcessingRan e v)
  with assms have "currentState (controller m) = AppProcessing" by simp
  then show ?thesis
    by (simp add: ProcessingRan app_forward_def handleProcessingComplete_def split: option.splits)
qed

lemma app_run_reachable: "app_reachable m \<Longrightarrow> app_run acts m = Some m' \<Longrightarrow> app_reachable m'"
  by (induction acts arbitrary: m) (auto split: if_splits intro: app_reachable.app_step)

text \<open>
  C8. In every reachable state of the single-file page, an action other than Start Over
  leaves the stage where it is or moves it one stage forward (upload to extract, extract
  to review); Start Over, the only action that goes back, returns to upload and clears
  the selected file, the uploaded file name and the page collection. In every reachable
  state of the component variant, every action leaves the stage of the controller where
  it is or moves it one stage forward (upload to processing, processing to review): that
  variant has no action that goes back.
\<close>

theorem C8_stage_moves_forward:
  "(reachable s \<longrightarrow> enabled s a \<longrightarrow>
      (if a = ClickStartOver
       then currentStep (perform a s) = StepUpload \<and> uploadedFilename (perform a s) = []
            \<and> pagesData (perform a s) = [] \<and> file' (perform a s) = None
       else forward (currentStep s) (currentStep (perform a s))))
   \<and> (app_reachable m \<longrightarrow> app_enabled m b \<longrightarrow>
        app_forward (currentState (controller m)) (currentState (controller (app_perform b m))))"
proof (intro conjI impI)
  assume r: "reachable s" and e: "enabled s a"
  show "if a = ClickStartOver
       then currentStep (perform a s) = StepUpload \<and> uploadedFilename (perform a s) = []
            \<and> pagesData (perform a s) = [] \<and> file' (perform a s) = None
       else forward (currentStep s) (currentStep (perform a s))"
  proof (cases "a = ClickStartOver")
    case True
    then show ?thesis by (simp add: resetProcess_def)
  next
    case False
    from r have "in_step s" by (rule reachable_in_step)
    with e False show ?thesis by (simp add: forward_perform)
  qed
next
  assume "app_reachable m" and e: "app_enabled m b"
  then have "waiting m" by (simp add: app_reachable_waiting)
  with e show "app_forward (currentState (controller m)) (currentState (controller (app_perform b m)))"
    by (rule app_forward_perform [rotated])
qed

text \<open>
  C8 at the end of a session of the single-file page that has uploaded \<open>doc.pdf\<close> and
  extracted one page: Start Over can be pressed and leads back to an empty upload stage.
  And in the component variant after the upload of \<open>scan.PDF\<close>: the run of the
  processing component moves the controller from processing to review.
\<close>

theorem C8_stage_moves_forward_witness:
  "run [SelectFile \<lparr>name = ''doc.pdf'', type = ''application/pdf'', size_file = 2097152\<rparr>,
        ClickUpload,
        UploadSettled (Resolved \<lparr>ok = True, redirected = False, blob = None,
          parsed = Some \<lparr>upload_success = True, upload_filename = ''doc.pdf'', upload_failure = None\<rparr>\<rparr>),
        ClickExtract,
        ExtractSettled (Resolved \<lparr>ok = True, redirected = False, blob = None,
          parsed = Some \<lparr>extract_success = True,
            pages_data = [[(''page_number'', JNum 1), (''analyze_contents'', JStr ''a'')]],
            total_pages = 1, extract_failure = None\<rparr>\<rparr>)] IndexA =
     Some \<lparr>file' = Some \<lparr>name = ''doc.pdf'', type = ''application/pdf'', size_file = 2097152\<rparr>,
           isUploading = False, isExtracting = False, isAnalyzing = False,
           uploadedFilename = ''doc.pdf'',
           pagesData = [[(''page_number'', JNum 1), (''analyze_contents'', JStr ''a'')]],
           error = [], currentStep = StepReview\<rparr>
   \<and> enabled \<lparr>file' = Some \<lparr>name = ''doc.pdf'', type = ''application/pdf'', size_file = 2097152\<rparr>,
           isUploading = False, isExtracting = False, isAnalyzing = False,
           uploadedFilename = ''doc.pdf'',
           pagesData = [[(''page_number'', JNum 1), (''analyze_contents'', JStr ''a'')]],
           error = [], currentStep = StepReview\<rparr> ClickStartOver
   \<and> perform ClickStartOver
         \<lparr>file' = Some \<lparr>name = ''doc.pdf'', type = ''application/pdf'', size_file = 2097152\<rparr>,
           isUploading = False, isExtracting = False, isAnalyzing = False,
           uploadedFilename = ''doc.pdf'',
           pagesData = [[(''page_number'', JNum 1), (''analyze_contents'', JStr ''a'')]],
           error = [], currentStep = StepReview\<rparr> = IndexA
   \<and> app_run [ChooseFile \<lparr>name = ''scan.PDF'', type = ''application/pdf'', size_file = 2097152\<rparr>,
          UploadAnswered (Resolved \<lparr>ok = True, redirected = True, blob = None, parsed = None\<rparr>),
          TimerFired] App_initial =
       Some \<lparr>controller = \<lparr>currentState = AppProcessing, filename = ''scan.PDF'', extractedData = []\<rparr>,
             upload_view = \<lparr>dragActive = False, uploading = True, uploadProgress = 100, upload_error = None\<rparr>,
             in_flight = None, timer = None\<rparr>
   \<and> currentState (controller (app_perform
         (ProcessingRan (Resolved \<lparr>ok = True, redirected = True, blob = None, parsed = None\<rparr>)
                        (Resolved \<lparr>ok = True, redirected = False, blob = None, parsed = None\<rparr>))
         \<lparr>controller = \<lparr>currentState = AppProcessing, filename = ''scan.PDF'', extractedData = []\<rparr>,
           upload_view = \<lparr>dragActive = False, uploading = True, uploadProgress = 100, upload_error = None\<rparr>,
           in_flight = None, timer = None\<rparr>)) = AppReview"
proof -
  let ?S = "\<lparr>file' = Some \<lparr>name = ''doc.pdf'', type = ''application/pdf'', size_file = 2097152\<rparr>,
           isUploading = False, isExtracting = False, isAnalyzing = False,
           uploadedFilename = ''doc.pdf'',
           pagesData = [[(''page_number'', JNum 1), (''analyze_contents'', JStr ''a'')]],
           error = [], currentStep = StepReview\<rparr>"
  let ?M = "\<lparr>controller = \<lparr>currentState = AppProcessing, filename = ''scan.PDF'', extractedData = []\<rparr>,
           upload_view = \<lparr>dragActive = False, uploading = True, uploadProgress = 100, upload_error = None\<rparr>,
           in_flight = None, timer = None\<rparr>"
  let ?b = "ProcessingRan (Resolved \<lparr>ok = True, redirected = True, blob = None, parsed = (None :: unit option)\<rparr>)
                        (Resolved \<lparr>ok = True, redirected = False, blob = None, parsed = (None :: unit option)\<rparr>)"
  have run: "run [SelectFile \<lparr>name = ''doc.pdf'', type = ''application/pdf'', size_file = 2097152\<rparr>,
        ClickUpload,
        UploadSettled (Resolved \<lparr>ok = True, redirected = False, blob = None,
          parsed = Some \<lparr>upload_success = True, upload_filename = ''doc.pdf'', upload_failure = None\<rparr>\<rparr>),
        ClickExtract,
        ExtractSettled (Resolved \<lparr>ok = True, redirected = False, blob = None,
          parsed = Some \<lparr>extract_success = True,
            pages_data = [[(''page_number'', JNum 1), (''analyze_contents'', JStr ''a'')]],
            total_pages = 1, extract_failure = None\<rparr>\<rparr>)] IndexA = Some ?S"
    by (simp add: IndexA_def handleFileSelect_def endsWith_def toLowerCase_def lower_char_def
        uploadFile_begin_def uploadFile_settle_def extractText_begin_def extractText_settle_def)
  have app: "app_run [ChooseFile \<lparr>name = ''scan.PDF'', type = ''application/pdf'', size_file = 2097152\<rparr>,
          UploadAnswered (Resolved \<lparr>ok = True, redirected = True, blob = None, parsed = None\<rparr>),
          TimerFired] App_initial = Some ?M"
    by (simp add: App_initial_def Index_def FileUpload_def started_def handleFile_begin_def
        max_size_def handleProcessingStart_def handleFile_settle_def handleFileUploaded_def)
  have rs: "reachable ?S"
    using run_reachable [OF reachable.initial run] .
  have rm: "app_reachable ?M"
    using app_run_reachable [OF app_reachable.app_initial app] .
  have en: "enabled ?S ClickStartOver" by simp
  have em: "app_enabled ?M ?b" by simp
  from C8_stage_moves_forward [of ?S ClickStartOver ?M ?b] rs rm en em
  have "currentStep (perform ClickStartOver ?S) = StepUpload"
    and "app_forward (currentState (controller ?M)) (currentState (controller (app_perform ?b ?M)))"
    by simp_all
  then show ?thesis
    using run app en
    by (simp add: resetProcess_def IndexA_def startProcessing_def handleProcessingComplete_def)
qed

end
